theory Spec2Isabelle
  imports Main
begin

section \<open>Python strings\<close>

text \<open>
  A Python \<open>str\<close> is a sequence of Unicode code points, so it is modelled as a list of
  natural numbers. The source's literals contain Chinese text; those are written out as
  code points, ASCII literals through \<open>str\<close>.
\<close>

type_synonym pystr = "nat list"

definition str :: "string \<Rightarrow> pystr" where
  "str s = map of_char s"

text \<open>\<open>str(n)\<close> of an integer: its decimal digits, with a minus sign when negative.\<close>

function str_nat :: "nat \<Rightarrow> pystr" where
  "str_nat n = (if n < 10 then [48 + n] else str_nat (n div 10) @ [48 + n mod 10])"
  by pat_completeness auto
termination
  by (relation "measure id") auto

declare str_nat.simps [simp del]

definition str_int :: "int \<Rightarrow> pystr" where
  "str_int i = (if i < 0 then 45 # str_nat (nat (- i)) else str_nat (nat i))"

text \<open>
  \<open>str.isspace\<close> per code point: the twenty-nine code points Python treats as whitespace.
  \<open>s.strip()\<close> drops them from both ends; \<open>sep.join(xs)\<close> puts \<open>sep\<close> between the items.
\<close>

definition isspace :: "nat \<Rightarrow> bool" where
  "isspace c \<longleftrightarrow>
     (9 \<le> c \<and> c \<le> 13) \<or> (28 \<le> c \<and> c \<le> 32) \<or> c = 133 \<or> c = 160 \<or> c = 5760 \<or>
     (8192 \<le> c \<and> c \<le> 8202) \<or> c = 8232 \<or> c = 8233 \<or> c = 8239 \<or> c = 8287 \<or> c = 12288"

definition strip :: "pystr \<Rightarrow> pystr" where
  "strip s = rev (dropWhile isspace (rev (dropWhile isspace s)))"

fun join :: "pystr \<Rightarrow> pystr list \<Rightarrow> pystr" where
  "join sep [] = []"
| "join sep [x] = x"
| "join sep (x # y # ys) = x @ sep @ join sep (y # ys)"

text \<open>
  \<open>s.lower()\<close>: on a string of ASCII code points it moves \<open>A..Z\<close> to \<open>a..z\<close>; what Python's
  Unicode tables do to any other string is the parameter \<open>ul\<close>.
\<close>

definition lower :: "(pystr \<Rightarrow> pystr) \<Rightarrow> pystr \<Rightarrow> pystr" where
  "lower ul s =
     (if \<forall>c \<in> set s. c < 128 then map (\<lambda>c. if 65 \<le> c \<and> c \<le> 90 then c + 32 else c) s
      else ul s)"

section \<open>Exceptions\<close>

datatype exn =
    Exception pystr
  | ValueError pystr
  | TypeError pystr
  | NotImplementedError pystr
  | FileNotFoundError pystr
  | HTTPException nat

text \<open>
  \<open>str(e)\<close> of an exception raised with one message argument is that message. The HTTP
  errors of the request handlers are kept by their status code; they are answers to the
  client and never reach \<open>str\<close>.
\<close>

fun str_exn :: "exn \<Rightarrow> pystr" where
  "str_exn (Exception m) = m"
| "str_exn (ValueError m) = m"
| "str_exn (TypeError m) = m"
| "str_exn (NotImplementedError m) = m"
| "str_exn (FileNotFoundError m) = m"
| "str_exn (HTTPException c) = []"

section \<open>ocr_adapters.py\<close>

subsection \<open>The adapters\<close>

text \<open>
  \<open>kwargs.get(k)\<close> is \<open>None\<close> for a keyword that was not passed, so the credentials of an
  adapter are optional strings.
\<close>

record tencent_adapter =
  secret_id :: "pystr option"
  secret_key :: "pystr option"
  region :: pystr
  endpoint :: pystr
  service :: pystr
  version :: pystr

record baidu_adapter =
  api_key :: "pystr option"
  baidu_secret_key :: "pystr option"
  access_token :: "pystr option"

record ali_adapter =
  access_key_id :: "pystr option"
  access_key_secret :: "pystr option"

datatype ocr_adapter =
    Tencent tencent_adapter
  | Baidu baidu_adapter
  | Ali ali_adapter

definition TencentOCRAdapter :: "pystr option \<Rightarrow> pystr option \<Rightarrow> pystr \<Rightarrow> tencent_adapter" where
  "TencentOCRAdapter sid skey reg =
     \<lparr>secret_id = sid, secret_key = skey, region = reg,
      endpoint = str ''ocr.tencentcloudapi.com'', service = str ''ocr'',
      version = str ''2018-11-19''\<rparr>"

definition BaiduOCRAdapter :: "pystr option \<Rightarrow> pystr option \<Rightarrow> baidu_adapter" where
  "BaiduOCRAdapter akey skey = \<lparr>api_key = akey, baidu_secret_key = skey, access_token = None\<rparr>"

definition AliOCRAdapter :: "pystr option \<Rightarrow> pystr option \<Rightarrow> ali_adapter" where
  "AliOCRAdapter kid ksecret = \<lparr>access_key_id = kid, access_key_secret = ksecret\<rparr>"

subsection \<open>Request signing\<close>

text \<open>
  \<open>_sign\<close> calls \<open>json.dumps\<close>, \<open>str.encode\<close>, \<open>hashlib.sha256\<close>, \<open>hmac.new\<close> and
  \<open>time.strftime\<close> of the standard library. They are functions of their arguments and are
  taken as parameters.
\<close>

record pylib =
  json_dumps :: "(pystr \<times> pystr) list \<Rightarrow> pystr"
  encode_utf8 :: "pystr \<Rightarrow> nat list"
  sha256_hexdigest :: "nat list \<Rightarrow> pystr"
  hmac_sha256_digest :: "nat list \<Rightarrow> nat list \<Rightarrow> nat list"
  hmac_sha256_hexdigest :: "nat list \<Rightarrow> nat list \<Rightarrow> pystr"
  strftime_ymd_gmtime :: "int \<Rightarrow> pystr"

definition none_concat_error :: exn where
  "none_concat_error =
     TypeError (str ''can only concatenate str (not '' @ [34] @ str ''NoneType'' @ [34] @ str '') to str'')"

definition hmac_sha256_str :: "pylib \<Rightarrow> nat list \<Rightarrow> pystr \<Rightarrow> nat list" where
  "hmac_sha256_str lib key msg = hmac_sha256_digest lib key (encode_utf8 lib msg)"

definition sign :: "pylib \<Rightarrow> tencent_adapter \<Rightarrow> (pystr \<times> pystr) list \<Rightarrow> int \<Rightarrow> exn + pystr" where
  "sign lib self params timestamp =
     (let http_request_method = str ''POST'';
          canonical_uri = str ''/'';
          canonical_querystring = [];
          canonical_headers =
            str ''content-type:application/json'' @ [10] @ str ''host:'' @ endpoint self @ [10];
          signed_headers = str ''content-type;host'';
          payload = json_dumps lib params;
          hashed_request_payload = sha256_hexdigest lib (encode_utf8 lib payload);
          canonical_request =
            http_request_method @ [10] @ canonical_uri @ [10] @ canonical_querystring @ [10] @
            canonical_headers @ [10] @ signed_headers @ [10] @ hashed_request_payload;
          algorithm = str ''TC3-HMAC-SHA256'';
          date = strftime_ymd_gmtime lib timestamp;
          credential_scope = date @ str ''/'' @ service self @ str ''/tc3_request'';
          hashed_canonical_request = sha256_hexdigest lib (encode_utf8 lib canonical_request);
          string_to_sign =
            algorithm @ [10] @ str_int timestamp @ [10] @ credential_scope @ [10] @
            hashed_canonical_request
      in case secret_key self of
           None \<Rightarrow> Inl none_concat_error
         | Some skey \<Rightarrow>
             (let secret_date = hmac_sha256_str lib (encode_utf8 lib (str ''TC3'' @ skey)) date;
                  secret_service = hmac_sha256_str lib secret_date (service self);
                  secret_signing = hmac_sha256_str lib secret_service (str ''tc3_request'');
                  signature =
                    hmac_sha256_hexdigest lib secret_signing (encode_utf8 lib string_to_sign)
              in case secret_id self of
                   None \<Rightarrow> Inl none_concat_error
                 | Some sid \<Rightarrow>
                     Inr (algorithm @ str '' '' @
                          str ''Credential='' @ sid @ str ''/'' @ credential_scope @ str '', '' @
                          str ''SignedHeaders='' @ signed_headers @ str '', '' @
                          str ''Signature='' @ signature)))"

subsection \<open>recognize\<close>

text \<open>
  The Tencent and Baidu adapters exchange HTTP messages with the vendor; what that exchange
  returns or raises for an image is the parameter \<open>net\<close>. The Ali adapter is a placeholder.
\<close>

definition ali_not_implemented :: pystr where
  "ali_not_implemented =
     [38463, 37324, 20113, 32, 79, 67, 82, 32, 36866, 37197, 22120, 24453, 23454, 29616]"

fun recognize :: "(ocr_adapter \<Rightarrow> pystr \<Rightarrow> exn + pystr) \<Rightarrow> ocr_adapter \<Rightarrow> pystr \<Rightarrow> exn + pystr" where
  "recognize net (Tencent a) image_base64 = net (Tencent a) image_base64"
| "recognize net (Baidu a) image_base64 = net (Baidu a) image_base64"
| "recognize net (Ali a) image_base64 = Inl (NotImplementedError ali_not_implemented)"

subsection \<open>The factory\<close>

definition unsupported_provider :: "pystr \<Rightarrow> pystr" where
  "unsupported_provider provider =
     [19981, 25903, 25345, 30340, 32, 79, 67, 82, 32, 25552, 20379, 21830, 58, 32] @ provider @
     [65292, 25903, 25345, 30340, 26377, 58, 32] @ str ''tencent, baidu, ali''"

definition kwargs_get_default :: "(pystr \<rightharpoonup> pystr) \<Rightarrow> pystr \<Rightarrow> pystr \<Rightarrow> pystr" where
  "kwargs_get_default kwargs k d = (case kwargs k of None \<Rightarrow> d | Some v \<Rightarrow> v)"

definition create_ocr_adapter ::
  "(pystr \<Rightarrow> pystr) \<Rightarrow> pystr \<Rightarrow> (pystr \<rightharpoonup> pystr) \<Rightarrow> exn + ocr_adapter" where
  "create_ocr_adapter ul provider0 kwargs =
     (let provider = lower ul provider0
      in if provider = str ''tencent'' then
           Inr (Tencent (TencentOCRAdapter (kwargs (str ''secret_id'')) (kwargs (str ''secret_key''))
                  (kwargs_get_default kwargs (str ''region'') (str ''ap-guangzhou''))))
         else if provider = str ''baidu'' then
           Inr (Baidu (BaiduOCRAdapter (kwargs (str ''api_key'')) (kwargs (str ''secret_key''))))
         else if provider = str ''ali'' then
           Inr (Ali (AliOCRAdapter (kwargs (str ''access_key_id''))
                  (kwargs (str ''access_key_secret''))))
         else Inl (ValueError (unsupported_provider provider)))"

section \<open>main.py\<close>

subsection \<open>Configuration\<close>

record app_config =
  DEEPSEEK_API_KEY :: pystr
  OCR_PROVIDER :: pystr
  TENCENT_SECRET_ID :: pystr
  TENCENT_SECRET_KEY :: pystr
  TENCENT_REGION :: pystr
  BAIDU_API_KEY :: pystr
  BAIDU_SECRET_KEY :: pystr
  ALI_ACCESS_KEY_ID :: pystr
  ALI_ACCESS_KEY_SECRET :: pystr

definition MAX_IMAGE_SIZE :: nat where
  "MAX_IMAGE_SIZE = 10 * 1024 * 1024"

definition MAX_IMAGES_PER_UPLOAD :: nat where
  "MAX_IMAGES_PER_UPLOAD = 10"

definition ALLOWED_EXTENSIONS :: "pystr set" where
  "ALLOWED_EXTENSIONS = {str ''.jpg'', str ''.jpeg'', str ''.png'', str ''.webp''}"

definition tencent_incomplete :: pystr where
  "tencent_incomplete =
     [33150, 35759, 20113, 32, 79, 67, 82, 32, 37197, 32622, 19981, 23436, 25972, 65292, 35831,
      35774, 32622, 32] @ str ''TENCENT_SECRET_ID '' @ [21644, 32] @ str ''TENCENT_SECRET_KEY''"

definition baidu_incomplete :: pystr where
  "baidu_incomplete =
     [30334, 24230, 32, 79, 67, 82, 32, 37197, 32622, 19981, 23436, 25972, 65292, 35831, 35774,
      32622, 32] @ str ''BAIDU_API_KEY '' @ [21644, 32] @ str ''BAIDU_SECRET_KEY''"

definition ali_incomplete :: pystr where
  "ali_incomplete =
     [38463, 37324, 20113, 32, 79, 67, 82, 32, 37197, 32622, 19981, 23436, 25972, 65292, 35831,
      35774, 32622, 32] @ str ''ALI_ACCESS_KEY_ID '' @ [21644, 32] @ str ''ALI_ACCESS_KEY_SECRET''"

definition unsupported_ocr_provider :: "pystr \<Rightarrow> pystr" where
  "unsupported_ocr_provider p =
     [19981, 25903, 25345, 30340, 32, 79, 67, 82, 32, 25552, 20379, 21830, 58, 32] @ p"

definition Config_create_ocr_adapter :: "(pystr \<Rightarrow> pystr) \<Rightarrow> app_config \<Rightarrow> exn + ocr_adapter" where
  "Config_create_ocr_adapter ul cls =
     (if OCR_PROVIDER cls = str ''tencent'' then
        (if TENCENT_SECRET_ID cls = [] \<or> TENCENT_SECRET_KEY cls = []
         then Inl (ValueError tencent_incomplete)
         else create_ocr_adapter ul (str ''tencent'')
                [str ''secret_id'' \<mapsto> TENCENT_SECRET_ID cls,
                 str ''secret_key'' \<mapsto> TENCENT_SECRET_KEY cls,
                 str ''region'' \<mapsto> TENCENT_REGION cls])
      else if OCR_PROVIDER cls = str ''baidu'' then
        (if BAIDU_API_KEY cls = [] \<or> BAIDU_SECRET_KEY cls = []
         then Inl (ValueError baidu_incomplete)
         else create_ocr_adapter ul (str ''baidu'')
                [str ''api_key'' \<mapsto> BAIDU_API_KEY cls,
                 str ''secret_key'' \<mapsto> BAIDU_SECRET_KEY cls])
      else if OCR_PROVIDER cls = str ''ali'' then
        (if ALI_ACCESS_KEY_ID cls = [] \<or> ALI_ACCESS_KEY_SECRET cls = []
         then Inl (ValueError ali_incomplete)
         else create_ocr_adapter ul (str ''ali'')
                [str ''access_key_id'' \<mapsto> ALI_ACCESS_KEY_ID cls,
                 str ''access_key_secret'' \<mapsto> ALI_ACCESS_KEY_SECRET cls])
      else Inl (ValueError (unsupported_ocr_provider (OCR_PROVIDER cls))))"

text \<open>
  \<open>get_ocr_adapter\<close> caches the adapter in a class attribute. The configuration is read once
  at import, so every call that has to create the adapter creates the same one or raises the
  same error, and the cache does not show in the result.
\<close>

definition get_ocr_adapter :: "(pystr \<Rightarrow> pystr) \<Rightarrow> app_config \<Rightarrow> exn + ocr_adapter" where
  "get_ocr_adapter ul cls = Config_create_ocr_adapter ul cls"

subsection \<open>Stored documents and the state of the service\<close>

text \<open>
  A record document is the JSON object written by \<open>upload_homework\<close>, which always writes the
  first eight keys; \<open>ocr_text\<close>, \<open>previous_result\<close> and \<open>error\<close> are added later and are
  optional. The files of the data directory are addressed by plan name and record id (or
  relative image path); a plan's \<open>records\<close> directory is absent or holds record files.
  A plan's configuration is the object \<open>create_plan\<close> writes, which always has a prompt.
  Hence the defaults of \<open>config.get("prompt", ...)\<close>, \<open>record.get("regrade_count", 0)\<close>
  and \<open>record.get("result")\<close> are never taken and the fields are read directly. JSON files
  are taken to be well formed and a write to an existing directory to succeed.

  Two fields are observations rather than files: \<open>saved\<close> lists every \<open>save_json\<close> of a record
  in the order it happened, and \<open>posted\<close> lists the contents sent to the grading model.
  \<open>tasks\<close> is the queue of \<open>background_tasks.add_task(process_homework, plan, record_id)\<close>.
\<close>

record plan_config =
  plan_name :: pystr
  description :: pystr
  prompt :: pystr
  plan_created_at :: pystr
  plan_updated_at :: "pystr option"

record hw_record =
  record_id :: pystr
  student :: pystr
  images :: "pystr list"
  status :: pystr
  result :: pystr
  regrade_count :: int
  created_at :: pystr
  updated_at :: pystr
  ocr_text :: "pystr option"
  previous_result :: "pystr option"
  error :: "pystr option"

record state =
  configs :: "pystr \<rightharpoonup> plan_config"
  records_dirs :: "pystr \<rightharpoonup> (pystr \<rightharpoonup> hw_record)"
  image_files :: "pystr \<times> pystr \<rightharpoonup> pystr"
  tasks :: "(pystr \<times> pystr) list"
  saved :: "(pystr \<times> pystr \<times> hw_record) list"
  posted :: "pystr list"

definition empty_state :: state where
  "empty_state =
     \<lparr>configs = Map.empty, records_dirs = Map.empty, image_files = Map.empty,
      tasks = [], saved = [], posted = []\<rparr>"

definition record_path :: "pystr \<Rightarrow> pystr \<Rightarrow> pystr" where
  "record_path plan rid = plan @ str ''/records/'' @ rid @ str ''.json''"

definition config_path :: "pystr \<Rightarrow> pystr" where
  "config_path plan = plan @ str ''/config.json''"

definition no_such_file :: "pystr \<Rightarrow> exn" where
  "no_such_file path =
     FileNotFoundError (str ''[Errno 2] No such file or directory: '' @ [39] @ path @ [39])"

definition load_record :: "state \<Rightarrow> pystr \<Rightarrow> pystr \<Rightarrow> hw_record option" where
  "load_record st plan rid =
     (case records_dirs st plan of None \<Rightarrow> None | Some d \<Rightarrow> d rid)"

text \<open>
  \<open>save_json\<close> of a record file: \<open>open(path, 'w')\<close> raises when the directory is missing;
  otherwise the file is replaced by the new document.
\<close>

definition write_record :: "pystr \<Rightarrow> pystr \<Rightarrow> hw_record \<Rightarrow> (pystr \<rightharpoonup> hw_record) \<Rightarrow> state \<Rightarrow> state" where
  "write_record plan rid data d st =
     st\<lparr>records_dirs := (records_dirs st)(plan \<mapsto> d(rid \<mapsto> data)),
        saved := saved st @ [(plan, rid, data)]\<rparr>"

definition save_json_record :: "pystr \<Rightarrow> pystr \<Rightarrow> hw_record \<Rightarrow> state \<Rightarrow> exn + state" where
  "save_json_record plan rid data st =
     (case records_dirs st plan of
        None \<Rightarrow> Inl (no_such_file (record_path plan rid))
      | Some d \<Rightarrow> Inr (write_record plan rid data d st))"

definition add_task :: "pystr \<Rightarrow> pystr \<Rightarrow> state \<Rightarrow> state" where
  "add_task plan rid st = st\<lparr>tasks := tasks st @ [(plan, rid)]\<rparr>"

subsection \<open>create_plan\<close>

record plan_create =
  pc_plan_name :: pystr
  pc_description :: pystr
  pc_prompt :: pystr

definition ensure_plan_dirs :: "pystr \<Rightarrow> state \<Rightarrow> state" where
  "ensure_plan_dirs plan st =
     (case records_dirs st plan of
        None \<Rightarrow> st\<lparr>records_dirs := (records_dirs st)(plan \<mapsto> Map.empty)\<rparr>
      | Some d \<Rightarrow> st)"

definition create_plan :: "pystr \<Rightarrow> plan_create \<Rightarrow> state \<Rightarrow> (exn + plan_config) \<times> state" where
  "create_plan now plan st =
     (let name = strip (pc_plan_name plan)
      in if name = [] then (Inl (HTTPException 400), st)
         else if 47 \<in> set name \<or> 92 \<in> set name then (Inl (HTTPException 400), st)
         else if configs st name \<noteq> None then (Inl (HTTPException 400), st)
         else
           (let st1 = ensure_plan_dirs name st;
                config_data =
                  \<lparr>plan_name = name, description = pc_description plan,
                   prompt = pc_prompt plan, plan_created_at = now, plan_updated_at = None\<rparr>
            in (Inr config_data, st1\<lparr>configs := (configs st1)(name \<mapsto> config_data)\<rparr>)))"

subsection \<open>upload_homework\<close>

text \<open>
  An uploaded file is given by the lower-cased suffix of its file name, the length of its
  content and the content itself (as the base64 text the pipeline later sends to OCR).
\<close>

record upload_file =
  file_ext :: pystr
  content_length :: nat
  content_base64 :: pystr

fun save_images ::
  "pystr \<Rightarrow> pystr \<Rightarrow> nat \<Rightarrow> upload_file list \<Rightarrow> pystr list \<Rightarrow> state \<Rightarrow> (exn + pystr list) \<times> state" where
  "save_images plan rid idx [] saved_images st = (Inr saved_images, st)"
| "save_images plan rid idx (img # rest) saved_images st =
     (if file_ext img \<notin> ALLOWED_EXTENSIONS then (Inl (HTTPException 400), st)
      else if content_length img > MAX_IMAGE_SIZE then (Inl (HTTPException 400), st)
      else
        (let image_filename = rid @ str ''_'' @ str_nat idx @ file_ext img;
             rel = str ''images/'' @ image_filename;
             st1 = st\<lparr>image_files := (image_files st)((plan, rel) \<mapsto> content_base64 img)\<rparr>
         in save_images plan rid (idx + 1) rest (saved_images @ [rel]) st1))"

definition upload_homework ::
  "nat \<Rightarrow> pystr \<Rightarrow> pystr \<Rightarrow> pystr \<Rightarrow> pystr \<Rightarrow> upload_file list \<Rightarrow> state \<Rightarrow> (exn + pystr) \<times> state" where
  "upload_homework time_ms now1 now2 plan student0 files st =
     (if configs st plan = None then (Inl (HTTPException 404), st)
      else if strip student0 = [] then (Inl (HTTPException 400), st)
      else if length files > MAX_IMAGES_PER_UPLOAD then (Inl (HTTPException 400), st)
      else
        (let rid = str_nat time_ms
         in case save_images plan rid 1 files [] st of
              (Inl e, st1) \<Rightarrow> (Inl e, st1)
            | (Inr saved_images, st1) \<Rightarrow>
                (let record =
                       \<lparr>record_id = rid, student = strip student0, images = saved_images,
                        status = str ''pending'', result = [], regrade_count = 0,
                        created_at = now1, updated_at = now2,
                        ocr_text = None, previous_result = None, error = None\<rparr>
                 in case save_json_record plan rid record st1 of
                      Inl e \<Rightarrow> (Inl e, st1)
                    | Inr st2 \<Rightarrow> (Inr rid, add_task plan rid st2))))"

subsection \<open>process_homework\<close>

text \<open>
  What one invocation of the pipeline takes from outside the program: the configuration, the
  clock readings at its first and its last save, the vendor's answer to an OCR request, and the
  grading model's answer to a posted content. \<open>requests.post\<close> raises (transport error,
  timeout) or returns a response; \<open>completion\<close> is what
  \<open>response.json()["choices"][0]["message"]["content"]\<close> evaluates to, or the exception it
  raises on a body of another shape.
\<close>

record http_response =
  status_code :: int
  response_text :: pystr
  completion :: "exn + pystr"

record proc_env =
  app :: app_config
  unicode_lower :: "pystr \<Rightarrow> pystr"
  time_start :: pystr
  time_end :: pystr
  net_ocr :: "ocr_adapter \<Rightarrow> pystr \<Rightarrow> exn + pystr"
  deepseek_post :: "pystr \<Rightarrow> exn + http_response"

definition image_label :: "nat \<Rightarrow> pystr" where
  "image_label idx = [12304, 22270, 29255, 32] @ str_nat idx @ [12305, 10]"

definition recognition_failed :: "exn \<Rightarrow> pystr" where
  "recognition_failed e = [40, 35782, 21035, 22833, 36133, 58, 32] @ str_exn e @ str '')''"

definition no_text_recognized :: pystr where
  "no_text_recognized =
     [79, 67, 82, 32, 26410, 35782, 21035, 21040, 20219, 20309, 25991, 23383, 20869, 23481]"

definition api_key_not_configured :: pystr where
  "api_key_not_configured = str ''DEEPSEEK_API_KEY '' @ [26410, 37197, 32622]"

definition homework_header :: pystr where
  "homework_header = [10, 10, 12304, 23398, 29983, 20316, 19994, 20869, 23481, 12305, 10]"

definition deepseek_call_failed :: "int \<Rightarrow> pystr \<Rightarrow> pystr" where
  "deepseek_call_failed code body =
     str ''DeepSeek API '' @ [35843, 29992, 22833, 36133, 58, 32] @ str_int code @ str '' - '' @ body"

text \<open>
  The loop over \<open>enumerate(record["images"], 1)\<close>: \<open>files\<close> are the image files of the plan,
  \<open>recognized_texts\<close> is the list the loop appends to.
\<close>

fun ocr_images ::
  "(ocr_adapter \<Rightarrow> pystr \<Rightarrow> exn + pystr) \<Rightarrow> ocr_adapter \<Rightarrow> (pystr \<rightharpoonup> pystr) \<Rightarrow>
   nat \<Rightarrow> pystr list \<Rightarrow> pystr list \<Rightarrow> pystr list" where
  "ocr_images net ocr_adapter files idx [] recognized_texts = recognized_texts"
| "ocr_images net ocr_adapter files idx (image_rel_path # rest) recognized_texts =
     ocr_images net ocr_adapter files (idx + 1) rest
       (case files image_rel_path of
          None \<Rightarrow> recognized_texts
        | Some img_base64 \<Rightarrow>
            (case recognize net ocr_adapter img_base64 of
               Inr text \<Rightarrow>
                 if strip text \<noteq> [] then recognized_texts @ [image_label idx @ text]
                 else recognized_texts
             | Inl e \<Rightarrow> recognized_texts @ [image_label idx @ recognition_failed e]))"

text \<open>
  What the loop body appends for the image at position \<open>idx\<close>; the loop is the
  concatenation of these contributions (lemma \<open>ocr_images_sections\<close> below).
\<close>

definition image_section ::
  "(ocr_adapter \<Rightarrow> pystr \<Rightarrow> exn + pystr) \<Rightarrow> ocr_adapter \<Rightarrow> (pystr \<rightharpoonup> pystr) \<Rightarrow>
   nat \<Rightarrow> pystr \<Rightarrow> pystr list" where
  "image_section net ocr_adapter files idx image_rel_path =
     ocr_images net ocr_adapter files idx [image_rel_path] []"

text \<open>
  The body of the \<open>try\<close> after the record was marked processing: it raises, or returns the OCR
  document and the correction.
\<close>

definition grade :: "proc_env \<Rightarrow> pystr \<Rightarrow> hw_record \<Rightarrow> state \<Rightarrow> (exn + pystr \<times> pystr) \<times> state" where
  "grade env plan record st =
     (case configs st plan of
        None \<Rightarrow> (Inl (no_such_file (config_path plan)), st)
      | Some config \<Rightarrow>
          (case get_ocr_adapter (unicode_lower env) (app env) of
             Inl e \<Rightarrow> (Inl e, st)
           | Inr ocr_adapter \<Rightarrow>
               (let recognized_texts =
                      ocr_images (net_ocr env) ocr_adapter (\<lambda>rel. image_files st (plan, rel)) 1
                        (images record) []
                in if recognized_texts = [] then (Inl (Exception no_text_recognized), st)
                   else
                     (let all_text = join [10, 10] recognized_texts
                      in if DEEPSEEK_API_KEY (app env) = []
                         then (Inl (Exception api_key_not_configured), st)
                         else
                           (let full_prompt = prompt config @ homework_header @ all_text @ [10];
                                st1 = st\<lparr>posted := posted st @ [full_prompt]\<rparr>
                            in case deepseek_post env full_prompt of
                                 Inl e \<Rightarrow> (Inl e, st1)
                               | Inr response \<Rightarrow>
                                   if status_code response = 200 then
                                     (case completion response of
                                        Inl e \<Rightarrow> (Inl e, st1)
                                      | Inr correction \<Rightarrow> (Inr (all_text, correction), st1))
                                   else
                                     (Inl (Exception (deepseek_call_failed (status_code response)
                                             (response_text response))), st1))))))"

text \<open>The \<open>except\<close> handler: mark the record failed; a save that raises is swallowed.\<close>

definition mark_failed :: "proc_env \<Rightarrow> pystr \<Rightarrow> pystr \<Rightarrow> hw_record \<Rightarrow> exn \<Rightarrow> state \<Rightarrow> state" where
  "mark_failed env plan rid record e st =
     (case save_json_record plan rid
             (record\<lparr>status := str ''failed'', error := Some (str_exn e),
                     updated_at := time_end env\<rparr>) st of
        Inl e' \<Rightarrow> st
      | Inr st1 \<Rightarrow> st1)"

text \<open>
  When the record cannot be loaded the variable \<open>record\<close> is unbound in the handler, whose own
  \<open>try\<close> swallows the resulting error: nothing is written.
\<close>

definition process_homework :: "proc_env \<Rightarrow> pystr \<Rightarrow> pystr \<Rightarrow> state \<Rightarrow> state" where
  "process_homework env plan rid st =
     (case load_record st plan rid of
        None \<Rightarrow> st
      | Some record0 \<Rightarrow>
          (let record = record0\<lparr>status := str ''processing'', updated_at := time_start env\<rparr>
           in case save_json_record plan rid record st of
                Inl e \<Rightarrow> mark_failed env plan rid record e st
              | Inr st1 \<Rightarrow>
                  (case grade env plan record st1 of
                     (Inl e, st2) \<Rightarrow> mark_failed env plan rid record e st2
                   | (Inr (all_text, correction), st2) \<Rightarrow>
                       (let record1 = record\<lparr>status := str ''done'', ocr_text := Some all_text,
                                             result := correction, updated_at := time_end env\<rparr>
                        in case save_json_record plan rid record1 st2 of
                             Inl e \<Rightarrow> mark_failed env plan rid record1 e st2
                           | Inr st3 \<Rightarrow> st3))))"

subsection \<open>regrade_records\<close>

text \<open>
  The reset a regrade applies to a loaded record: keep a non-empty result as
  \<open>previous_result\<close>, then set the status, clear the result, count the regrade and stamp it.
\<close>

definition reset_for_regrade :: "pystr \<Rightarrow> hw_record \<Rightarrow> hw_record" where
  "reset_for_regrade now record0 =
     (let record1 = (if result record0 \<noteq> []
                     then record0\<lparr>previous_result := Some (result record0)\<rparr>
                     else record0)
      in record1\<lparr>status := str ''pending'', result := [],
                 regrade_count := regrade_count record1 + 1, updated_at := now\<rparr>)"

text \<open>
  One pass of the loop body for \<open>record_id\<close>; \<open>now\<close> is the clock reading of that pass.
\<close>

definition regrade_one :: "pystr \<Rightarrow> pystr \<Rightarrow> pystr \<Rightarrow> int \<times> state \<Rightarrow> int \<times> state" where
  "regrade_one now plan rid cs =
     (case cs of (count, st) \<Rightarrow>
        (case load_record st plan rid of
           None \<Rightarrow> (count, st)
         | Some record0 \<Rightarrow>
             (case save_json_record plan rid (reset_for_regrade now record0) st of
                Inl e \<Rightarrow> (count, st)
              | Inr st1 \<Rightarrow> (count + 1, add_task plan rid st1))))"

fun regrade_loop :: "(nat \<Rightarrow> pystr) \<Rightarrow> pystr \<Rightarrow> nat \<Rightarrow> pystr list \<Rightarrow> int \<times> state \<Rightarrow> int \<times> state" where
  "regrade_loop clock plan i [] cs = cs"
| "regrade_loop clock plan i (rid # rids) cs =
     regrade_loop clock plan (i + 1) rids (regrade_one (clock i) plan rid cs)"

text \<open>
  \<open>request\<close> is the \<open>record_ids\<close> field of the request body (\<open>None\<close> when absent);
  \<open>listing\<close> is what \<open>records_dir.glob("*.json")\<close> yields, as file stems.
\<close>

definition selected_record_ids :: "pystr list \<Rightarrow> pystr list option \<Rightarrow> pystr list" where
  "selected_record_ids listing request =
     (case request of
        None \<Rightarrow> listing
      | Some ids \<Rightarrow> if ids \<noteq> [] then ids else listing)"

definition regrade_records ::
  "(nat \<Rightarrow> pystr) \<Rightarrow> pystr list \<Rightarrow> pystr \<Rightarrow> pystr list option \<Rightarrow> state \<Rightarrow> (exn + int) \<times> state" where
  "regrade_records clock listing plan request st =
     (if configs st plan = None then (Inl (HTTPException 404), st)
      else
        (case records_dirs st plan of
           None \<Rightarrow> (Inr 0, st)
         | Some d \<Rightarrow>
             (let record_ids = selected_record_ids listing request
              in case regrade_loop clock plan 0 record_ids (0, st) of
                   (count, st1) \<Rightarrow> (Inr count, st1))))"

definition glob_records :: "state \<Rightarrow> pystr \<Rightarrow> pystr list \<Rightarrow> bool" where
  "glob_records st plan listing \<longleftrightarrow>
     distinct listing \<and> (\<forall>rid. rid \<in> set listing \<longleftrightarrow> load_record st plan rid \<noteq> None)"

subsection \<open>The states the service reaches\<close>

text \<open>
  Requests are handled one after the other, and a queued pipeline invocation runs to its end
  at some later point, in any order with the other queued ones.
\<close>

inductive reachable :: "state \<Rightarrow> bool" where
  start: "reachable empty_state"
| plan: "reachable st \<Longrightarrow> reachable (snd (create_plan now pc st))"
| upload: "reachable st \<Longrightarrow> reachable (snd (upload_homework ms now1 now2 plan student0 files st))"
| regrade:
    "reachable st \<Longrightarrow> glob_records st plan listing \<Longrightarrow>
     reachable (snd (regrade_records clock listing plan request st))"
| process:
    "reachable st \<Longrightarrow> (plan, rid) \<in> set (tasks st) \<Longrightarrow>
     reachable (process_homework env plan rid (st\<lparr>tasks := remove1 (plan, rid) (tasks st)\<rparr>))"

text \<open>The statuses written to one record file, oldest first, and the steps between them.\<close>

definition status_history :: "state \<Rightarrow> pystr \<Rightarrow> pystr \<Rightarrow> pystr list" where
  "status_history st plan rid =
     map (\<lambda>(p, r, data). status data) (filter (\<lambda>(p, r, data). p = plan \<and> r = rid) (saved st))"

fun transitions :: "'a list \<Rightarrow> ('a \<times> 'a) list" where
  "transitions (x # y # ys) = (x, y) # transitions (y # ys)"
| "transitions xs = []"

text \<open>
  The transitions the specification lists, and the ones the code can also take: a regrade
  resets a record whatever its status, and an invocation starts whatever the status.
\<close>

definition spec_transitions :: "(pystr \<times> pystr) set" where
  "spec_transitions =
     {(str ''pending'', str ''processing''), (str ''processing'', str ''done''),
      (str ''processing'', str ''failed''), (str ''done'', str ''pending''),
      (str ''failed'', str ''pending'')}"

definition code_transitions :: "(pystr \<times> pystr) set" where
  "code_transitions =
     spec_transitions \<union>
     {(str ''pending'', str ''pending''), (str ''done'', str ''processing''),
      (str ''failed'', str ''processing'')}"

text \<open>
  A status history is in order when each step is one the code can take and its last status,
  the one a finished request or invocation leaves behind, is not \<open>processing\<close>.
\<close>

definition history_ok :: "pystr list \<Rightarrow> bool" where
  "history_ok xs \<longleftrightarrow>
     set (transitions xs) \<subseteq> code_transitions \<and>
     (xs \<noteq> [] \<longrightarrow> last xs \<in> {str ''pending'', str ''done'', str ''failed''})"

text \<open>The record invariant as the specification words it, and the part of it the code keeps.\<close>

definition spec_invariant :: "hw_record \<Rightarrow> bool" where
  "spec_invariant r \<longleftrightarrow>
     status r \<in> {str ''pending'', str ''processing'', str ''done'', str ''failed''} \<and>
     (result r \<noteq> [] \<longleftrightarrow> status r = str ''done'') \<and>
     (error r \<noteq> None \<longleftrightarrow> status r = str ''failed'')"

definition code_invariant :: "hw_record \<Rightarrow> bool" where
  "code_invariant r \<longleftrightarrow>
     status r \<in> {str ''pending'', str ''processing'', str ''done'', str ''failed''} \<and>
     (status r = str ''pending'' \<longrightarrow> result r = []) \<and>
     (status r = str ''failed'' \<longrightarrow> error r \<noteq> None)"

section \<open>Scenarios\<close>

text \<open>
  Concrete runs of the service, used to exercise the theorems below: a plan \<open>math\<close>, an upload
  at clock reading 1700 ms (so the record id is \<open>1700\<close>) with one or two pages, and
  environments for the pipeline.
\<close>

definition math_plan :: plan_create where
  "math_plan = \<lparr>pc_plan_name = str ''math'', pc_description = str ''week 1'',
                 pc_prompt = str ''Grade this''\<rparr>"

definition page1 :: upload_file where
  "page1 = \<lparr>file_ext = str ''.png'', content_length = 2, content_base64 = str ''cDE=''\<rparr>"

definition page2 :: upload_file where
  "page2 = \<lparr>file_ext = str ''.jpg'', content_length = 2, content_base64 = str ''cDI=''\<rparr>"

definition math_config :: plan_config where
  "math_config = \<lparr>plan_name = str ''math'', description = str ''week 1'',
      prompt = str ''Grade this'', plan_created_at = str ''t0'', plan_updated_at = None\<rparr>"

definition rec_one :: hw_record where
  "rec_one = \<lparr>record_id = str ''1700'', student = str ''Ann'',
      images = [str ''images/1700_1.png''], status = str ''pending'', result = [],
      regrade_count = 0, created_at = str ''t1'', updated_at = str ''t1'',
      ocr_text = None, previous_result = None, error = None\<rparr>"


definition st_plan :: state where
  "st_plan = snd (create_plan (str ''t0'') math_plan empty_state)"

definition st_one :: state where
  "st_one = snd (upload_homework 1700 (str ''t1'') (str ''t1'') (str ''math'') (str ''Ann'')
                   [page1] st_plan)"

definition st_two :: state where
  "st_two = snd (upload_homework 1700 (str ''t1'') (str ''t1'') (str ''math'') (str ''Ann'')
                   [page1, page2] st_plan)"

definition tencent_app :: app_config where
  "tencent_app =
     \<lparr>DEEPSEEK_API_KEY = str ''sk'', OCR_PROVIDER = str ''tencent'',
      TENCENT_SECRET_ID = str ''id'', TENCENT_SECRET_KEY = str ''key'',
      TENCENT_REGION = str ''ap-guangzhou'', BAIDU_API_KEY = [], BAIDU_SECRET_KEY = [],
      ALI_ACCESS_KEY_ID = [], ALI_ACCESS_KEY_SECRET = []\<rparr>"

definition ali_app :: app_config where
  "ali_app =
     \<lparr>DEEPSEEK_API_KEY = str ''sk'', OCR_PROVIDER = str ''ali'',
      TENCENT_SECRET_ID = [], TENCENT_SECRET_KEY = [],
      TENCENT_REGION = str ''ap-guangzhou'', BAIDU_API_KEY = [], BAIDU_SECRET_KEY = [],
      ALI_ACCESS_KEY_ID = str ''id'', ALI_ACCESS_KEY_SECRET = str ''key''\<rparr>"

definition ocr_pages :: "ocr_adapter \<Rightarrow> pystr \<Rightarrow> exn + pystr" where
  "ocr_pages a b =
     (if b = str ''cDE='' then Inr (str ''2+2=4'')
      else if b = str ''cDI='' then Inr (str ''3+3=6'')
      else Inr [])"

definition echo_grader :: "pystr \<Rightarrow> exn + http_response" where
  "echo_grader c =
     Inr \<lparr>status_code = 200, response_text = [], completion = Inr (c @ str ''Grade: A'')\<rparr>"

definition busy_response :: http_response where
  "busy_response =
     \<lparr>status_code = 500, response_text = str ''busy'', completion = Inl (Exception [])\<rparr>"

definition busy_grader :: "pystr \<Rightarrow> exn + http_response" where
  "busy_grader c = Inr busy_response"

definition env_ok :: proc_env where
  "env_ok = \<lparr>app = tencent_app, unicode_lower = (\<lambda>s. s), time_start = str ''t2'',
             time_end = str ''t3'', net_ocr = ocr_pages, deepseek_post = echo_grader\<rparr>"

definition env_busy :: proc_env where
  "env_busy = \<lparr>app = tencent_app, unicode_lower = (\<lambda>s. s), time_start = str ''t2'',
               time_end = str ''t3'', net_ocr = ocr_pages, deepseek_post = busy_grader\<rparr>"

definition env_blank :: proc_env where
  "env_blank = \<lparr>app = tencent_app, unicode_lower = (\<lambda>s. s), time_start = str ''t2'',
                time_end = str ''t3'', net_ocr = (\<lambda>a b. Inr (str ''  '')),
                deepseek_post = echo_grader\<rparr>"

definition env_ali :: proc_env where
  "env_ali = \<lparr>app = ali_app, unicode_lower = (\<lambda>s. s), time_start = str ''t2'',
              time_end = str ''t3'', net_ocr = ocr_pages, deepseek_post = echo_grader\<rparr>"

definition env_nokey :: proc_env where
  "env_nokey = \<lparr>app = tencent_app\<lparr>DEEPSEEK_API_KEY := []\<rparr>, unicode_lower = (\<lambda>s. s),
                time_start = str ''t6'', time_end = str ''t7'', net_ocr = ocr_pages,
                deepseek_post = echo_grader\<rparr>"

text \<open>The adapters the two configurations create.\<close>

definition tencent_t :: tencent_adapter where
  "tencent_t = TencentOCRAdapter (Some (str ''id'')) (Some (str ''key'')) (str ''ap-guangzhou'')"

definition ali_t :: ali_adapter where
  "ali_t = AliOCRAdapter (Some (str ''id'')) (Some (str ''key''))"

text \<open>The OCR documents and grading requests of the one-page and the two-page record.\<close>

definition page1_text :: pystr where
  "page1_text = image_label 1 @ str ''2+2=4''"

definition page1_prompt :: pystr where
  "page1_prompt = str ''Grade this'' @ homework_header @ page1_text @ [10]"



definition ali_text :: pystr where
  "ali_text = image_label 1 @ recognition_failed (NotImplementedError ali_not_implemented)"

text \<open>
  A longer run on the one-page record: it is regraded before its queued invocation has run,
  then both queued invocations run (the second without a grading key), then it is regraded
  again.
\<close>

definition st_regraded :: state where
  "st_regraded =
     snd (regrade_records (\<lambda>i. str ''t4'') [str ''1700''] (str ''math'')
            (Some [str ''1700'']) st_one)"

definition st_graded :: state where
  "st_graded =
     process_homework env_ok (str ''math'') (str ''1700'')
       (st_regraded\<lparr>tasks := remove1 (str ''math'', str ''1700'') (tasks st_regraded)\<rparr>)"

definition st_failed :: state where
  "st_failed =
     process_homework env_nokey (str ''math'') (str ''1700'')
       (st_graded\<lparr>tasks := remove1 (str ''math'', str ''1700'') (tasks st_graded)\<rparr>)"

definition st_again :: state where
  "st_again =
     snd (regrade_records (\<lambda>i. str ''t8'') [str ''1700''] (str ''math'')
            (Some [str ''1700'']) st_failed)"

text \<open>The documents this run saves.\<close>

definition rec_graded :: hw_record where
  "rec_graded = (reset_for_regrade (str ''t4'') rec_one)
     \<lparr>status := str ''done'', updated_at := str ''t3'', ocr_text := Some page1_text,
      result := page1_prompt @ str ''Grade: A''\<rparr>"

definition rec_failed :: hw_record where
  "rec_failed = rec_graded\<lparr>status := str ''failed'', updated_at := str ''t7'',
     error := Some api_key_not_configured\<rparr>"

definition saved_failed :: "(pystr \<times> pystr \<times> hw_record) list" where
  "saved_failed =
     [(str ''math'', str ''1700'', rec_one),
      (str ''math'', str ''1700'', reset_for_regrade (str ''t4'') rec_one),
      (str ''math'', str ''1700'',
       (reset_for_regrade (str ''t4'') rec_one)\<lparr>status := str ''processing'',
          updated_at := str ''t2''\<rparr>),
      (str ''math'', str ''1700'', rec_graded),
      (str ''math'', str ''1700'',
       rec_graded\<lparr>status := str ''processing'', updated_at := str ''t6''\<rparr>),
      (str ''math'', str ''1700'', rec_failed)]"

text \<open>
  Two runs without any overlap of requests and invocations: the record is graded and then
  regraded by a request that names it twice; and the record fails at the grading model and is
  then regraded by a request for all records.
\<close>

definition st_done :: state where
  "st_done =
     process_homework env_ok (str ''math'') (str ''1700'')
       (st_one\<lparr>tasks := remove1 (str ''math'', str ''1700'') (tasks st_one)\<rparr>)"

definition st_twice :: state where
  "st_twice =
     snd (regrade_records (\<lambda>i. str ''t5'') [str ''1700''] (str ''math'')
            (Some [str ''1700'', str ''1700'']) st_done)"

definition st_busy :: state where
  "st_busy =
     process_homework env_busy (str ''math'') (str ''1700'')
       (st_one\<lparr>tasks := remove1 (str ''math'', str ''1700'') (tasks st_one)\<rparr>)"

definition st_busy_regraded :: state where
  "st_busy_regraded =
     snd (regrade_records (\<lambda>i. str ''t4'') [str ''1700''] (str ''math'') None st_busy)"

definition rec_done :: hw_record where
  "rec_done = rec_one\<lparr>status := str ''done'', updated_at := str ''t3'',
     ocr_text := Some page1_text, result := page1_prompt @ str ''Grade: A''\<rparr>"

definition rec_busy :: hw_record where
  "rec_busy = rec_one\<lparr>status := str ''failed'', updated_at := str ''t3'',
     error := Some (deepseek_call_failed 500 (str ''busy''))\<rparr>"

section \<open>Properties of ocr_adapters.py\<close>

lemma str_simps: "str [] = []" "str (c # cs) = of_char c # str cs"
  by (simp_all add: str_def)

text \<open>
  C8. The Tencent signing function is deterministic: the Authorization string is a function of
  the request parameters, the timestamp and the secret id and key alone. Two adapters built
  from the same secret id and key, whatever their regions, sign the same parameters at the
  same timestamp to the same string (or fail alike when a credential is missing); the
  clock is never read inside the function.
\<close>

theorem sign_deterministic:
  "sign lib (TencentOCRAdapter sid skey region1) params timestamp =
   sign lib (TencentOCRAdapter sid skey region2) params timestamp"
  by (simp add: sign_def TencentOCRAdapter_def Let_def split: option.split)

text \<open>
  C9, as stated, fails: the factory lower-cases the provider name before it compares, so the
  name \<open>Tencent\<close>, which is not one of the three strings \<open>tencent\<close>, \<open>baidu\<close>, \<open>ali\<close>, is
  given a Tencent adapter.
\<close>

theorem create_ocr_adapter_mixed_case:
  "str ''Tencent'' \<notin> {str ''tencent'', str ''baidu'', str ''ali''} \<and>
   create_ocr_adapter (\<lambda>s. s) (str ''Tencent'') Map.empty =
     Inr (Tencent (TencentOCRAdapter None None (str ''ap-guangzhou'')))"
  by (simp add: create_ocr_adapter_def lower_def str_def kwargs_get_default_def)

text \<open>
  C9, amended. For every provider name whose lower-cased form is outside
  \<open>{tencent, baidu, ali}\<close> the factory raises \<open>ValueError\<close> and returns no adapter; a name
  whose lower-cased form is in the enumeration gets an adapter; and \<open>recognize\<close> of the Ali
  adapter raises \<open>NotImplementedError\<close> for every input.
\<close>

theorem create_ocr_adapter_unknown:
  "(lower ul provider \<notin> {str ''tencent'', str ''baidu'', str ''ali''} \<longrightarrow>
      create_ocr_adapter ul provider kwargs =
        Inl (ValueError (unsupported_provider (lower ul provider)))) \<and>
   (lower ul provider \<in> {str ''tencent'', str ''baidu'', str ''ali''} \<longrightarrow>
      (\<exists>a. create_ocr_adapter ul provider kwargs = Inr a)) \<and>
   recognize net (Ali a) image_base64 = Inl (NotImplementedError ali_not_implemented)"
  by (auto simp add: create_ocr_adapter_def Let_def)

theorem create_ocr_adapter_unknown_witness:
  "lower (\<lambda>s. s) (str ''Google'') \<notin> {str ''tencent'', str ''baidu'', str ''ali''} \<and>
   create_ocr_adapter (\<lambda>s. s) (str ''Google'') Map.empty =
     Inl (ValueError (unsupported_provider (str ''google''))) \<and>
   lower (\<lambda>s. s) (str ''ALI'') \<in> {str ''tencent'', str ''baidu'', str ''ali''} \<and>
   (\<exists>a. create_ocr_adapter (\<lambda>s. s) (str ''ALI'') Map.empty = Inr a) \<and>
   recognize (\<lambda>a i. Inr []) (Ali (AliOCRAdapter None None)) [] =
     Inl (NotImplementedError ali_not_implemented)"
proof -
  have l1: "lower (\<lambda>s. s) (str ''Google'') = str ''google''"
    by (simp add: lower_def str_def)
  have l2: "lower (\<lambda>s. s) (str ''ALI'') = str ''ali''"
    by (simp add: lower_def str_def)
  have n1: "str ''google'' \<notin> {str ''tencent'', str ''baidu'', str ''ali''}"
    by (simp add: str_def)
  have n2: "str ''ali'' \<in> {str ''tencent'', str ''baidu'', str ''ali''}"
    by simp
  note g = create_ocr_adapter_unknown [of "\<lambda>s. s" "str ''Google''" Map.empty
        "\<lambda>a i. Inr []" "AliOCRAdapter None None" "[]", unfolded l1]
  note a = create_ocr_adapter_unknown [of "\<lambda>s. s" "str ''ALI''" Map.empty
        "\<lambda>a i. Inr []" "AliOCRAdapter None None" "[]", unfolded l2]
  from g n1 have g1: "create_ocr_adapter (\<lambda>s. s) (str ''Google'') Map.empty =
     Inl (ValueError (unsupported_provider (str ''google'')))" by blast
  from a n2 have a1: "\<exists>a. create_ocr_adapter (\<lambda>s. s) (str ''ALI'') Map.empty = Inr a" by blast
  from g have r: "recognize (\<lambda>a i. Inr []) (Ali (AliOCRAdapter None None)) [] =
     Inl (NotImplementedError ali_not_implemented)" by blast
  show ?thesis
    unfolding l1 l2 using n1 n2 g1 a1 r by blast
qed

section \<open>Properties of the pipeline\<close>

lemma statuses_distinct:
  "str ''pending'' \<noteq> str ''processing''" "str ''pending'' \<noteq> str ''done''"
  "str ''pending'' \<noteq> str ''failed''" "str ''processing'' \<noteq> str ''done''"
  "str ''processing'' \<noteq> str ''failed''" "str ''done'' \<noteq> str ''failed''"
  "str ''processing'' \<noteq> str ''pending''" "str ''done'' \<noteq> str ''pending''"
  "str ''failed'' \<noteq> str ''pending''" "str ''done'' \<noteq> str ''processing''"
  "str ''failed'' \<noteq> str ''processing''" "str ''failed'' \<noteq> str ''done''"
  by (simp_all add: str_def)

lemma load_record_dir:
  "load_record st plan rid = Some r \<Longrightarrow> \<exists>d. records_dirs st plan = Some d \<and> d rid = Some r"
  by (auto simp: load_record_def split: option.splits)

lemma save_json_record_dir:
  "records_dirs st plan = Some d \<Longrightarrow>
   save_json_record plan rid data st = Inr (write_record plan rid data d st)"
  by (simp add: save_json_record_def)

lemma write_record_fields [simp]:
  "configs (write_record plan rid data d st) = configs st"
  "image_files (write_record plan rid data d st) = image_files st"
  "tasks (write_record plan rid data d st) = tasks st"
  "posted (write_record plan rid data d st) = posted st"
  "saved (write_record plan rid data d st) = saved st @ [(plan, rid, data)]"
  "records_dirs (write_record plan rid data d st) = (records_dirs st)(plan \<mapsto> d(rid \<mapsto> data))"
  by (simp_all add: write_record_def)

lemma load_write_record:
  "load_record (write_record plan rid data d st) plan' rid' =
     (if plan' = plan then (if rid' = rid then Some data else d rid') else load_record st plan' rid')"
  by (simp add: load_record_def)

lemma grade_frame:
  "grade env plan r st = (x, st') \<Longrightarrow> st' = st\<lparr>posted := posted st'\<rparr>"
  by (auto simp: grade_def Let_def split: option.splits sum.splits if_splits)

lemma grade_fields:
  assumes "grade env plan r st = (x, st')"
  shows "configs st' = configs st" "records_dirs st' = records_dirs st"
    "image_files st' = image_files st" "tasks st' = tasks st" "saved st' = saved st"
proof -
  from grade_frame [OF assms] obtain ps where "st' = st\<lparr>posted := ps\<rparr>" by blast
  then show "configs st' = configs st" "records_dirs st' = records_dirs st"
    "image_files st' = image_files st" "tasks st' = tasks st" "saved st' = saved st"
    by simp_all
qed

text \<open>The two documents a pipeline invocation writes.\<close>

lemma process_homework_loaded:
  assumes l: "load_record st plan rid = Some r0"
    and d: "records_dirs st plan = Some d"
    and r1: "r1 = r0\<lparr>status := str ''processing'', updated_at := time_start env\<rparr>"
    and g: "grade env plan r1 (write_record plan rid r1 d st) = (x, st2)"
  shows "process_homework env plan rid st =
     write_record plan rid
       (case x of
          Inl e \<Rightarrow> r1\<lparr>status := str ''failed'', error := Some (str_exn e), updated_at := time_end env\<rparr>
        | Inr (all_text, correction) \<Rightarrow>
            r1\<lparr>status := str ''done'', ocr_text := Some all_text, result := correction,
               updated_at := time_end env\<rparr>)
       (d(rid \<mapsto> r1)) st2"
proof -
  have d2: "records_dirs st2 plan = Some (d(rid \<mapsto> r1))"
    using grade_fields(2) [OF g] by simp
  show ?thesis
    using l d g
    by (cases x)
      (auto simp: process_homework_def Let_def save_json_record_dir r1 [symmetric]
        mark_failed_def save_json_record_dir [OF d2] split: prod.splits)
qed

lemma image_section_cases:
  "image_section net a files idx p =
     (case files p of
        None \<Rightarrow> []
      | Some b \<Rightarrow>
          (case recognize net a b of
             Inr text \<Rightarrow> if strip text \<noteq> [] then [image_label idx @ text] else []
           | Inl e \<Rightarrow> [image_label idx @ recognition_failed e]))"
  by (simp add: image_section_def split: option.split sum.split)

lemma ocr_images_step:
  "ocr_images net a files idx (p # ps) acc =
     ocr_images net a files (Suc idx) ps (acc @ image_section net a files idx p)"
  by (simp add: image_section_cases split: option.split sum.split)


lemma ocr_images_all_silent:
  "(\<And>i p. p \<in> set ps \<Longrightarrow> image_section net a files i p = []) \<Longrightarrow>
   ocr_images net a files idx ps acc = acc"
  by (induction ps arbitrary: idx acc) (simp_all add: ocr_images_step del: ocr_images.simps(2))

lemma grade_posted_failure:
  assumes "grade env plan r st = (x, st')"
    and "posted st' = posted st @ [c]"
    and "deepseek_post env c = Inr response"
    and "status_code response \<noteq> 200"
  shows "x = Inl (Exception (deepseek_call_failed (status_code response) (response_text response)))"
  using assms
  by (auto simp: grade_def Let_def split: option.splits sum.splits if_splits)

text \<open>
  C3. An invocation that posts a request to the grading model and gets a response whose
  status is not 200 leaves the record failed, with the error message of the failed call
  recorded; the result field is what it was before the invocation (so it remains empty when
  it was empty) and so is \<open>ocr_text\<close>: the OCR document computed in this invocation is not
  persisted. The invocation saves the record twice, as processing and as failed.
\<close>

theorem grading_non_success_marks_failed:
  assumes l: "load_record st plan rid = Some r0"
    and p: "posted (process_homework env plan rid st) = posted st @ [content]"
    and a: "deepseek_post env content = Inr response"
    and c: "status_code response \<noteq> 200"
  shows "\<exists>r. load_record (process_homework env plan rid st) plan rid = Some r \<and>
           status r = str ''failed'' \<and>
           error r = Some (deepseek_call_failed (status_code response) (response_text response)) \<and>
           result r = result r0 \<and> (result r0 = [] \<longrightarrow> result r = []) \<and>
           ocr_text r = ocr_text r0 \<and>
           saved (process_homework env plan rid st) =
             saved st @ [(plan, rid, r0\<lparr>status := str ''processing'', updated_at := time_start env\<rparr>),
                         (plan, rid, r)]"
proof -
  define r1 where "r1 = r0\<lparr>status := str ''processing'', updated_at := time_start env\<rparr>"
  from load_record_dir [OF l] obtain d where d: "records_dirs st plan = Some d" by blast
  obtain x st2 where g: "grade env plan r1 (write_record plan rid r1 d st) = (x, st2)"
    by (cases "grade env plan r1 (write_record plan rid r1 d st)")
  note ph = process_homework_loaded [OF l d r1_def g]
  have "posted st2 = posted (write_record plan rid r1 d st) @ [content]"
    using p unfolding ph by simp
  from grade_posted_failure [OF g this a c]
  have x: "x = Inl (Exception (deepseek_call_failed (status_code response) (response_text response)))" .
  show ?thesis
    unfolding ph x using grade_fields(5) [OF g]
    by (simp add: load_write_record r1_def)
qed


text \<open>
  C10. In the loop, an image whose file is missing or whose OCR text is empty after \<open>strip\<close>
  appends nothing, neither a section nor a placeholder; only an OCR call that raises appends a
  placeholder. So a record all of whose images are missing or OCR to whitespace has no
  recognized text, and its invocation ends failed with the no-recognized-text error without
  any request to the grading model.
\<close>

theorem silent_images_omitted:
  "(files p = None \<or> (\<exists>b t. files p = Some b \<and> recognize net a b = Inr t \<and> strip t = []) \<longrightarrow>
      ocr_images net a files idx (p # ps) acc = ocr_images net a files (Suc idx) ps acc) \<and>
   (\<forall>b e. files p = Some b \<and> recognize net a b = Inl e \<longrightarrow>
      ocr_images net a files idx (p # ps) acc =
        ocr_images net a files (Suc idx) ps (acc @ [image_label idx @ recognition_failed e])) \<and>
   (load_record st plan rid = Some r0 \<and> configs st plan = Some config \<and>
    get_ocr_adapter (unicode_lower env) (app env) = Inr a \<and>
    (\<forall>q \<in> set (images r0).
       image_files st (plan, q) = None \<or>
       (\<exists>b t. image_files st (plan, q) = Some b \<and> recognize (net_ocr env) a b = Inr t \<and>
              strip t = [])) \<longrightarrow>
      ocr_images (net_ocr env) a (\<lambda>rel. image_files st (plan, rel)) 1 (images r0) [] = [] \<and>
      load_record (process_homework env plan rid st) plan rid =
        Some (r0\<lparr>status := str ''failed'', error := Some no_text_recognized,
                 updated_at := time_end env\<rparr>) \<and>
      posted (process_homework env plan rid st) = posted st)"
proof (intro conjI impI allI)
  assume "files p = None \<or> (\<exists>b t. files p = Some b \<and> recognize net a b = Inr t \<and> strip t = [])"
  then show "ocr_images net a files idx (p # ps) acc = ocr_images net a files (Suc idx) ps acc"
    by auto
next
  fix b e
  assume "files p = Some b \<and> recognize net a b = Inl e"
  then show "ocr_images net a files idx (p # ps) acc =
        ocr_images net a files (Suc idx) ps (acc @ [image_label idx @ recognition_failed e])"
    by auto
next
  assume h: "load_record st plan rid = Some r0 \<and> configs st plan = Some config \<and>
    get_ocr_adapter (unicode_lower env) (app env) = Inr a \<and>
    (\<forall>q \<in> set (images r0).
       image_files st (plan, q) = None \<or>
       (\<exists>b t. image_files st (plan, q) = Some b \<and> recognize (net_ocr env) a b = Inr t \<and>
              strip t = []))"
  then have l: "load_record st plan rid = Some r0" and cf: "configs st plan = Some config"
    and ad: "get_ocr_adapter (unicode_lower env) (app env) = Inr a" by simp_all
  have sil: "\<And>i q. q \<in> set (images r0) \<Longrightarrow>
      image_section (net_ocr env) a (\<lambda>rel. image_files st (plan, rel)) i q = []"
    using h by (auto simp: image_section_cases)
  have e: "ocr_images (net_ocr env) a (\<lambda>rel. image_files st (plan, rel)) 1 (images r0) [] = []"
    by (rule ocr_images_all_silent) (rule sil)
  define r1 where "r1 = r0\<lparr>status := str ''processing'', updated_at := time_start env\<rparr>"
  from load_record_dir [OF l] obtain d where d: "records_dirs st plan = Some d" by blast
  define st1 where "st1 = write_record plan rid r1 d st"
  have e': "ocr_images (net_ocr env) a (\<lambda>rel. image_files st (plan, rel)) (Suc 0) (images r0) [] = []"
    using e by simp
  have g: "grade env plan r1 st1 = (Inl (Exception no_text_recognized), st1)"
    using cf ad by (simp add: grade_def Let_def st1_def r1_def e')
  note ph = process_homework_loaded [OF l d r1_def g [unfolded st1_def]]
  show "ocr_images (net_ocr env) a (\<lambda>rel. image_files st (plan, rel)) 1 (images r0) [] = []"
    by (rule e)
  show "load_record (process_homework env plan rid st) plan rid =
        Some (r0\<lparr>status := str ''failed'', error := Some no_text_recognized,
                 updated_at := time_end env\<rparr>)"
    unfolding ph by (simp add: load_write_record r1_def)
  show "posted (process_homework env plan rid st) = posted st"
    unfolding ph by simp
qed

section \<open>The scenario states, evaluated\<close>

lemma strip_name [simp]: "strip (str ''math'') = str ''math''" "strip (str ''Ann'') = str ''Ann''"
  by (simp_all add: strip_def str_def isspace_def)

lemma str_nat_1700: "str_nat 1700 = str ''1700''"
  by (simp add: str_nat.simps str_def)

lemma str_nat_1: "str_nat 1 = str ''1''" "str_nat (Suc 0) = str ''1''"  "str_nat 2 = str ''2''"
  by (simp_all add: str_nat.simps str_def)

lemma st_plan_eq:
  "st_plan = \<lparr>configs = [str ''math'' \<mapsto> math_config],
     records_dirs = [str ''math'' \<mapsto> Map.empty], image_files = Map.empty,
     tasks = [], saved = [], posted = []\<rparr>"
  by (simp add: st_plan_def create_plan_def math_plan_def empty_state_def Let_def
      ensure_plan_dirs_def math_config_def) (simp add: str_def)

lemma st_one_eq:
  "st_one = \<lparr>configs = [str ''math'' \<mapsto> math_config],
     records_dirs = [str ''math'' \<mapsto> [str ''1700'' \<mapsto> rec_one]],
     image_files = [(str ''math'', str ''images/1700_1.png'') \<mapsto> str ''cDE=''],
     tasks = [(str ''math'', str ''1700'')],
     saved = [(str ''math'', str ''1700'', rec_one)], posted = []\<rparr>"
  unfolding st_one_def st_plan_eq
  by (simp add: upload_homework_def MAX_IMAGES_PER_UPLOAD_def page1_def ALLOWED_EXTENSIONS_def
      MAX_IMAGE_SIZE_def Let_def save_json_record_def write_record_def add_task_def
      str_nat_1700 str_nat_1 rec_one_def)
    (simp add: str_def)



lemma load_st_one: "load_record st_one (str ''math'') rid = (if rid = str ''1700'' then Some rec_one else None)"
  by (simp add: st_one_eq load_record_def)

lemma glob_st_one: "glob_records st_one (str ''math'') [str ''1700'']"
  by (simp add: glob_records_def load_st_one)

lemma st_regraded_eq:
  "st_regraded = \<lparr>configs = [str ''math'' \<mapsto> math_config],
     records_dirs = [str ''math'' \<mapsto> [str ''1700'' \<mapsto> reset_for_regrade (str ''t4'') rec_one]],
     image_files = [(str ''math'', str ''images/1700_1.png'') \<mapsto> str ''cDE=''],
     tasks = [(str ''math'', str ''1700''), (str ''math'', str ''1700'')],
     saved = [(str ''math'', str ''1700'', rec_one),
              (str ''math'', str ''1700'', reset_for_regrade (str ''t4'') rec_one)],
     posted = []\<rparr>"
  unfolding st_regraded_def st_one_eq
  by (simp add: regrade_records_def selected_record_ids_def Let_def regrade_one_def
      load_record_def save_json_record_def write_record_def add_task_def)


lemma adapter_tencent:
  "get_ocr_adapter (\<lambda>s. s) tencent_app =
     Inr (Tencent (TencentOCRAdapter (Some (str ''id'')) (Some (str ''key'')) (str ''ap-guangzhou'')))"
  by (simp add: get_ocr_adapter_def Config_create_ocr_adapter_def tencent_app_def
      create_ocr_adapter_def lower_def kwargs_get_default_def Let_def str_def)

lemma adapter_ali:
  "get_ocr_adapter (\<lambda>s. s) ali_app =
     Inr (Ali (AliOCRAdapter (Some (str ''id'')) (Some (str ''key''))))"
  by (simp add: get_ocr_adapter_def Config_create_ocr_adapter_def ali_app_def
      create_ocr_adapter_def lower_def Let_def str_def)

lemma key_tencent: "DEEPSEEK_API_KEY tencent_app = str ''sk''"
  by (simp add: tencent_app_def)

lemma key_ali: "DEEPSEEK_API_KEY ali_app = str ''sk''"
  by (simp add: ali_app_def)

lemma strip_texts [simp]:
  "strip (str ''2+2=4'') = str ''2+2=4''" "strip (str ''3+3=6'') = str ''3+3=6''"
  "strip (str ''  '') = []"
  by (simp_all add: strip_def str_def isspace_def)

lemma st_graded_eq:
  "st_graded = \<lparr>configs = [str ''math'' \<mapsto> math_config],
     records_dirs = [str ''math'' \<mapsto> [str ''1700'' \<mapsto> rec_graded]],
     image_files = [(str ''math'', str ''images/1700_1.png'') \<mapsto> str ''cDE=''],
     tasks = [(str ''math'', str ''1700'')],
     saved = [(str ''math'', str ''1700'', rec_one),
              (str ''math'', str ''1700'', reset_for_regrade (str ''t4'') rec_one),
              (str ''math'', str ''1700'',
               (reset_for_regrade (str ''t4'') rec_one)\<lparr>status := str ''processing'',
                  updated_at := str ''t2''\<rparr>),
              (str ''math'', str ''1700'', rec_graded)],
     posted = [page1_prompt]\<rparr>"
  unfolding st_graded_def st_regraded_eq
  by (simp add: process_homework_def load_record_def save_json_record_def write_record_def
      grade_def env_ok_def adapter_tencent Let_def rec_one_def reset_for_regrade_def
      math_config_def TencentOCRAdapter_def ocr_pages_def echo_grader_def rec_graded_def
      page1_text_def page1_prompt_def key_tencent)
    (simp add: str_def)


lemma key_nokey: "DEEPSEEK_API_KEY (app env_nokey) = []" "unicode_lower env_nokey = (\<lambda>s. s)"
  "get_ocr_adapter (\<lambda>s. s) (app env_nokey) =
     Inr (Tencent (TencentOCRAdapter (Some (str ''id'')) (Some (str ''key'')) (str ''ap-guangzhou'')))"
  by (simp_all add: env_nokey_def tencent_app_def get_ocr_adapter_def
      Config_create_ocr_adapter_def create_ocr_adapter_def lower_def kwargs_get_default_def
      Let_def str_def)

lemma st_failed_eq:
  "st_failed = \<lparr>configs = [str ''math'' \<mapsto> math_config],
     records_dirs = [str ''math'' \<mapsto> [str ''1700'' \<mapsto> rec_failed]],
     image_files = [(str ''math'', str ''images/1700_1.png'') \<mapsto> str ''cDE=''],
     tasks = [], saved = saved_failed, posted = [page1_prompt]\<rparr>"
  unfolding st_failed_def st_graded_eq
  by (simp add: process_homework_def load_record_def save_json_record_def write_record_def
      grade_def key_nokey Let_def mark_failed_def rec_failed_def saved_failed_def
      TencentOCRAdapter_def rec_graded_def rec_one_def reset_for_regrade_def math_config_def)
    (simp add: env_nokey_def ocr_pages_def str_def strip_def isspace_def)

lemma st_again_eq:
  "st_again = \<lparr>configs = [str ''math'' \<mapsto> math_config],
     records_dirs = [str ''math'' \<mapsto> [str ''1700'' \<mapsto> reset_for_regrade (str ''t8'') rec_failed]],
     image_files = [(str ''math'', str ''images/1700_1.png'') \<mapsto> str ''cDE=''],
     tasks = [(str ''math'', str ''1700'')],
     saved = saved_failed @ [(str ''math'', str ''1700'', reset_for_regrade (str ''t8'') rec_failed)],
     posted = [page1_prompt]\<rparr>"
  unfolding st_again_def st_failed_eq
  by (simp add: regrade_records_def selected_record_ids_def Let_def regrade_one_def
      load_record_def save_json_record_def write_record_def add_task_def)

lemma reachable_st_one: "reachable st_one"
  unfolding st_one_def st_plan_def by (intro reachable.upload reachable.plan reachable.start)

lemma reachable_st_two: "reachable st_two"
  unfolding st_two_def st_plan_def by (intro reachable.upload reachable.plan reachable.start)

lemma reachable_st_regraded: "reachable st_regraded"
  unfolding st_regraded_def by (rule reachable.regrade [OF reachable_st_one glob_st_one])

lemma reachable_st_graded: "reachable st_graded"
  unfolding st_graded_def
  by (rule reachable.process [OF reachable_st_regraded]) (simp add: st_regraded_eq)

lemma reachable_st_failed: "reachable st_failed"
  unfolding st_failed_def
  by (rule reachable.process [OF reachable_st_graded]) (simp add: st_graded_eq)

lemma glob_st_failed: "glob_records st_failed (str ''math'') [str ''1700'']"
  by (simp add: glob_records_def st_failed_eq load_record_def)

lemma reachable_st_again: "reachable st_again"
  unfolding st_again_def by (rule reachable.regrade [OF reachable_st_failed glob_st_failed])

lemma st_done_eq:
  "st_done = \<lparr>configs = [str ''math'' \<mapsto> math_config],
     records_dirs = [str ''math'' \<mapsto> [str ''1700'' \<mapsto> rec_done]],
     image_files = [(str ''math'', str ''images/1700_1.png'') \<mapsto> str ''cDE=''],
     tasks = [],
     saved = [(str ''math'', str ''1700'', rec_one),
              (str ''math'', str ''1700'',
               rec_one\<lparr>status := str ''processing'', updated_at := str ''t2''\<rparr>),
              (str ''math'', str ''1700'', rec_done)],
     posted = [page1_prompt]\<rparr>"
  unfolding st_done_def st_one_eq
  by (simp add: process_homework_def load_record_def save_json_record_def write_record_def
      grade_def env_ok_def adapter_tencent Let_def rec_one_def
      math_config_def TencentOCRAdapter_def ocr_pages_def echo_grader_def rec_done_def
      page1_text_def page1_prompt_def key_tencent)
    (simp add: str_def)

lemma st_busy_eq:
  "st_busy = \<lparr>configs = [str ''math'' \<mapsto> math_config],
     records_dirs = [str ''math'' \<mapsto> [str ''1700'' \<mapsto> rec_busy]],
     image_files = [(str ''math'', str ''images/1700_1.png'') \<mapsto> str ''cDE=''],
     tasks = [],
     saved = [(str ''math'', str ''1700'', rec_one),
              (str ''math'', str ''1700'',
               rec_one\<lparr>status := str ''processing'', updated_at := str ''t2''\<rparr>),
              (str ''math'', str ''1700'', rec_busy)],
     posted = [page1_prompt]\<rparr>"
  unfolding st_busy_def st_one_eq
  by (simp add: process_homework_def load_record_def save_json_record_def write_record_def
      grade_def env_busy_def adapter_tencent Let_def rec_one_def mark_failed_def
      math_config_def TencentOCRAdapter_def ocr_pages_def busy_grader_def busy_response_def
      rec_busy_def page1_text_def page1_prompt_def key_tencent)
    (simp add: str_def)

lemma reachable_st_done: "reachable st_done"
  unfolding st_done_def
  by (rule reachable.process [OF reachable_st_one]) (simp add: st_one_eq)

lemma reachable_st_busy: "reachable st_busy"
  unfolding st_busy_def
  by (rule reachable.process [OF reachable_st_one]) (simp add: st_one_eq)

lemma glob_st_done: "glob_records st_done (str ''math'') [str ''1700'']"
  by (simp add: glob_records_def st_done_eq load_record_def)

lemma glob_st_busy: "glob_records st_busy (str ''math'') [str ''1700'']"
  by (simp add: glob_records_def st_busy_eq load_record_def)

lemma reachable_st_twice: "reachable st_twice"
  unfolding st_twice_def by (rule reachable.regrade [OF reachable_st_done glob_st_done])

lemma reachable_st_busy_regraded: "reachable st_busy_regraded"
  unfolding st_busy_regraded_def by (rule reachable.regrade [OF reachable_st_busy glob_st_busy])

lemma history_st_twice:
  "status_history st_twice (str ''math'') (str ''1700'') =
     [str ''pending'', str ''processing'', str ''done'', str ''pending'', str ''pending'']"
  unfolding st_twice_def st_done_eq
  by (simp add: regrade_records_def selected_record_ids_def Let_def regrade_one_def
      load_record_def save_json_record_def write_record_def add_task_def status_history_def
      reset_for_regrade_def rec_one_def rec_done_def)

lemma tasks_st_twice:
  "tasks st_twice = [(str ''math'', str ''1700''), (str ''math'', str ''1700'')]"
  unfolding st_twice_def st_done_eq
  by (simp add: regrade_records_def selected_record_ids_def Let_def regrade_one_def
      load_record_def save_json_record_def write_record_def add_task_def)

lemma load_st_busy_regraded:
  "load_record st_busy_regraded (str ''math'') (str ''1700'') =
     Some (reset_for_regrade (str ''t4'') rec_busy)"
  unfolding st_busy_regraded_def st_busy_eq
  by (simp add: regrade_records_def selected_record_ids_def Let_def regrade_one_def
      load_record_def save_json_record_def write_record_def add_task_def)

section \<open>Properties of regrade\<close>

lemma add_task_fields [simp]:
  "configs (add_task plan rid st) = configs st"
  "records_dirs (add_task plan rid st) = records_dirs st"
  "image_files (add_task plan rid st) = image_files st"
  "posted (add_task plan rid st) = posted st"
  "saved (add_task plan rid st) = saved st"
  "tasks (add_task plan rid st) = tasks st @ [(plan, rid)]"
  "load_record (add_task plan rid st) p r = load_record st p r"
  by (simp_all add: add_task_def load_record_def)

lemma regrade_one_missing:
  "load_record st plan rid = None \<Longrightarrow> regrade_one now plan rid (c, st) = (c, st)"
  by (simp add: regrade_one_def)

lemma regrade_one_present:
  assumes "load_record st plan rid = Some r0"
  shows "\<exists>d. records_dirs st plan = Some d \<and>
           regrade_one now plan rid (c, st) =
             (c + 1, add_task plan rid (write_record plan rid (reset_for_regrade now r0) d st))"
proof -
  from load_record_dir [OF assms] obtain d where d: "records_dirs st plan = Some d" by blast
  then show ?thesis
    using assms by (simp add: regrade_one_def save_json_record_dir)
qed








lemma regrade_records_loop:
  assumes "configs st plan \<noteq> None" "records_dirs st plan = Some d"
  shows "regrade_records clock listing plan request st =
     (Inr (fst (regrade_loop clock plan 0 (selected_record_ids listing request) (0, st))),
      snd (regrade_loop clock plan 0 (selected_record_ids listing request) (0, st)))"
  using assms by (simp add: regrade_records_def Let_def split: prod.split)



section \<open>Reachable states\<close>

subsection \<open>How the operations extend the log of saves\<close>

lemma save_images_frame:
  "save_images plan rid idx files acc st = (x, st') \<Longrightarrow>
   saved st' = saved st \<and> records_dirs st' = records_dirs st \<and> configs st' = configs st \<and>
   tasks st' = tasks st \<and> posted st' = posted st"
proof (induction files arbitrary: idx acc st)
  case Nil
  then show ?case by auto
next
  case (Cons f files)
  show ?case
  proof (cases "file_ext f \<notin> ALLOWED_EXTENSIONS \<or> content_length f > MAX_IMAGE_SIZE")
    case True
    with Cons.prems show ?thesis by (auto split: if_splits)
  next
    case False
    with Cons.prems Cons.IH show ?thesis
      by (fastforce simp: Let_def)
  qed
qed

lemma load_write_record_dir:
  "records_dirs st plan = Some d \<Longrightarrow>
   load_record (write_record plan rid data d st) p r =
     (if p = plan \<and> r = rid then Some data else load_record st p r)"
  by (simp add: load_record_def)

lemma create_plan_frame:
  "saved (snd (create_plan now pc st)) = saved st"
  "load_record (snd (create_plan now pc st)) p r = load_record st p r"
  by (auto simp: create_plan_def Let_def ensure_plan_dirs_def load_record_def split: option.splits)

lemma upload_saved:
  "\<exists>ws. saved (snd (upload_homework ms now1 now2 plan student0 files st)) = saved st @ ws \<and>
        (\<forall>(p, r, d) \<in> set ws. status d = str ''pending'' \<and> result d = []) \<and>
        (\<forall>p r d. load_record (snd (upload_homework ms now1 now2 plan student0 files st)) p r = Some d \<longrightarrow>
            load_record st p r = Some d \<or> (p, r, d) \<in> set ws)"
proof -
  obtain x st1 where si: "save_images plan (str_nat ms) 1 files [] st = (x, st1)"
    by (cases "save_images plan (str_nat ms) 1 files [] st")
  note fr = save_images_frame [OF si]
  have lr: "\<And>p r. load_record st1 p r = load_record st p r"
    using fr by (simp add: load_record_def)
  show ?thesis
  proof (cases x)
    case (Inl e)
    then show ?thesis
      using si fr lr by (auto simp: upload_homework_def Let_def intro: exI [of _ "[]"])
  next
    case (Inr imgs)
    show ?thesis
    proof (cases "records_dirs st1 plan")
      case None
      then show ?thesis
        using si fr lr Inr
        by (auto simp: upload_homework_def Let_def save_json_record_def intro: exI [of _ "[]"])
    next
      case (Some d)
      then have d0: "records_dirs st plan = Some d" using fr by simp
      have lw: "\<And>p r data. load_record (write_record plan (str_nat ms) data d st1) p r =
          (if p = plan \<and> r = str_nat ms then Some data else load_record st p r)"
        using load_write_record_dir [OF Some] lr by simp
      show ?thesis
        using si fr Inr Some
        by (auto simp: upload_homework_def Let_def save_json_record_dir lw
            split: if_splits)
    qed
  qed
qed


lemma regrade_one_saved:
  "\<exists>ws. saved (snd (regrade_one now plan rid (c, st))) = saved st @ ws \<and>
        (\<forall>(p, r, d) \<in> set ws. status d = str ''pending'' \<and> result d = []) \<and>
        (\<forall>p r d. load_record (snd (regrade_one now plan rid (c, st))) p r = Some d \<longrightarrow>
            load_record st p r = Some d \<or> (p, r, d) \<in> set ws)"
proof (cases "load_record st plan rid")
  case None
  then show ?thesis by (simp add: regrade_one_missing)
next
  case (Some r0)
  from regrade_one_present [OF Some, of now c] obtain d
    where d: "records_dirs st plan = Some d"
      and e: "regrade_one now plan rid (c, st) =
             (c + 1, add_task plan rid (write_record plan rid (reset_for_regrade now r0) d st))"
    by blast
  show ?thesis
    unfolding e
    by (rule exI [of _ "[(plan, rid, reset_for_regrade now r0)]"])
      (auto simp: load_write_record_dir [OF d] reset_for_regrade_def Let_def split: if_splits)
qed

lemma regrade_loop_saved:
  "\<exists>ws. saved (snd (regrade_loop clock plan i ids (c, st))) = saved st @ ws \<and>
        (\<forall>(p, r, d) \<in> set ws. status d = str ''pending'' \<and> result d = []) \<and>
        (\<forall>p r d. load_record (snd (regrade_loop clock plan i ids (c, st))) p r = Some d \<longrightarrow>
            load_record st p r = Some d \<or> (p, r, d) \<in> set ws)"
proof (induction ids arbitrary: i c st)
  case Nil
  show ?case by simp
next
  case (Cons a ids)
  obtain c1 st1 where s: "regrade_one (clock i) plan a (c, st) = (c1, st1)"
    by (cases "regrade_one (clock i) plan a (c, st)")
  from regrade_one_saved [of "clock i" plan a c st] s obtain ws1
    where w1: "saved st1 = saved st @ ws1"
      "\<forall>(p, r, d) \<in> set ws1. status d = str ''pending'' \<and> result d = []"
      "\<forall>p r d. load_record st1 p r = Some d \<longrightarrow> load_record st p r = Some d \<or> (p, r, d) \<in> set ws1"
    by auto
  from Cons.IH [of "Suc i" c1 st1] obtain ws2
    where w2: "saved (snd (regrade_loop clock plan (Suc i) ids (c1, st1))) = saved st1 @ ws2"
      "\<forall>(p, r, d) \<in> set ws2. status d = str ''pending'' \<and> result d = []"
      "\<forall>p r d. load_record (snd (regrade_loop clock plan (Suc i) ids (c1, st1))) p r = Some d \<longrightarrow>
          load_record st1 p r = Some d \<or> (p, r, d) \<in> set ws2"
    by blast
  show ?case
    apply (rule exI [of _ "ws1 @ ws2"])
    using w1 w2 by (auto simp: s) blast+
qed

lemma regrade_records_saved:
  "\<exists>ws. saved (snd (regrade_records clock listing plan request st)) = saved st @ ws \<and>
        (\<forall>(p, r, d) \<in> set ws. status d = str ''pending'' \<and> result d = []) \<and>
        (\<forall>p r d. load_record (snd (regrade_records clock listing plan request st)) p r = Some d \<longrightarrow>
            load_record st p r = Some d \<or> (p, r, d) \<in> set ws)"
proof (cases "configs st plan \<noteq> None \<and> records_dirs st plan \<noteq> None")
  case True
  then obtain d where "configs st plan \<noteq> None" "records_dirs st plan = Some d" by auto
  from regrade_records_loop [OF this] regrade_loop_saved show ?thesis by simp
next
  case False
  then show ?thesis by (auto simp: regrade_records_def)
qed

lemma process_homework_saved:
  "saved (process_homework env plan rid st) = saved st \<and>
   (\<forall>p r. load_record (process_homework env plan rid st) p r = load_record st p r) \<or>
   (\<exists>r1 r2. saved (process_homework env plan rid st) = saved st @ [(plan, rid, r1), (plan, rid, r2)] \<and>
      status r1 = str ''processing'' \<and>
      (status r2 = str ''done'' \<or> status r2 = str ''failed'' \<and> error r2 \<noteq> None) \<and>
      (\<forall>p r d. load_record (process_homework env plan rid st) p r = Some d \<longrightarrow>
          load_record st p r = Some d \<or> (p, r, d) = (plan, rid, r2)))"
proof (cases "load_record st plan rid")
  case None
  then show ?thesis by (simp add: process_homework_def)
next
  case (Some r0)
  define r1 where "r1 = r0\<lparr>status := str ''processing'', updated_at := time_start env\<rparr>"
  from load_record_dir [OF Some] obtain d where d: "records_dirs st plan = Some d" by blast
  obtain x st2 where g: "grade env plan r1 (write_record plan rid r1 d st) = (x, st2)"
    by (cases "grade env plan r1 (write_record plan rid r1 d st)")
  note ph = process_homework_loaded [OF Some d r1_def g]
  note gf = grade_fields [OF g]
  have d2: "records_dirs st2 plan = Some (d(rid \<mapsto> r1))" using gf by simp
  have l2: "\<And>p r. load_record st2 p r = load_record (write_record plan rid r1 d st) p r"
    using gf by (simp add: load_record_def)
  have st1: "status r1 = str ''processing''" by (simp add: r1_def)
  show ?thesis
    apply (rule disjI2)
    unfolding ph
    using gf(5) st1
    by (cases x) (auto simp: load_write_record_dir [OF d2] l2 load_write_record_dir [OF d]
        split: if_splits)
qed

lemma transitions_snoc:
  "transitions (xs @ [y]) = (if xs = [] then [] else transitions xs @ [(last xs, y)])"
  by (induction xs rule: transitions.induct) auto

lemma history_ok_Nil: "history_ok []"
  by (simp add: history_ok_def)

lemma history_ok_pending: "history_ok xs \<Longrightarrow> history_ok (xs @ [str ''pending''])"
  by (auto simp: history_ok_def transitions_snoc code_transitions_def spec_transitions_def)

lemma history_ok_pendings:
  "history_ok xs \<Longrightarrow> \<forall>y \<in> set ys. y = str ''pending'' \<Longrightarrow> history_ok (xs @ ys)"
proof (induction ys rule: rev_induct)
  case Nil
  then show ?case by simp
next
  case (snoc y ys)
  then have "history_ok (xs @ ys)" by simp
  from history_ok_pending [OF this] snoc.prems(2) show ?case by simp
qed

lemma transitions_step:
  "set (transitions xs) \<subseteq> T \<Longrightarrow> (xs \<noteq> [] \<Longrightarrow> (last xs, y) \<in> T) \<Longrightarrow>
   set (transitions (xs @ [y])) \<subseteq> T"
  by (simp add: transitions_snoc)

lemma start_transition:
  "a \<in> {str ''pending'', str ''done'', str ''failed''} \<Longrightarrow>
   (a, str ''processing'') \<in> code_transitions"
  by (auto simp: code_transitions_def spec_transitions_def)

lemma finish_transition:
  "b = str ''done'' \<or> b = str ''failed'' \<Longrightarrow> (str ''processing'', b) \<in> code_transitions"
  by (auto simp: code_transitions_def spec_transitions_def)

lemma history_ok_run:
  assumes h: "history_ok xs" and b: "b = str ''done'' \<or> b = str ''failed''"
  shows "history_ok (xs @ [str ''processing'', b])"
proof -
  from h have t: "set (transitions xs) \<subseteq> code_transitions"
    and l: "xs \<noteq> [] \<Longrightarrow> last xs \<in> {str ''pending'', str ''done'', str ''failed''}"
    by (simp_all add: history_ok_def)
  have t1: "set (transitions (xs @ [str ''processing''])) \<subseteq> code_transitions"
    by (rule transitions_step [OF t]) (rule start_transition, rule l)
  have "set (transitions ((xs @ [str ''processing'']) @ [b])) \<subseteq> code_transitions"
    by (rule transitions_step [OF t1]) (simp add: finish_transition [OF b])
  then have t2: "set (transitions (xs @ [str ''processing'', b])) \<subseteq> code_transitions"
    by simp
  have "last (xs @ [str ''processing'', b]) = b" by simp
  with b have l2: "last (xs @ [str ''processing'', b]) \<in> {str ''pending'', str ''done'', str ''failed''}"
    by auto
  show ?thesis
    unfolding history_ok_def using t2 l2 by blast
qed

lemma status_history_append:
  "saved st' = saved st @ ws \<Longrightarrow>
   status_history st' plan rid =
     status_history st plan rid @
     map (\<lambda>(p, r, data). status data) (filter (\<lambda>(p, r, data). p = plan \<and> r = rid) ws)"
  by (simp add: status_history_def)

lemma status_history_same:
  "saved st' = saved st \<Longrightarrow> status_history st' plan rid = status_history st plan rid"
  by (simp add: status_history_def)

lemma reachable_history_ok:
  "reachable st \<Longrightarrow> history_ok (status_history st plan rid)"
proof (induction rule: reachable.induct)
  case start
  show ?case by (simp add: status_history_def empty_state_def history_ok_Nil)
next
  case (plan st now pc)
  then show ?case by (simp add: status_history_same [OF create_plan_frame(1)])
next
  case (upload st ms now1 now2 pl student0 files)
  from upload_saved [of ms now1 now2 pl student0 files st] obtain ws
    where w: "saved (snd (upload_homework ms now1 now2 pl student0 files st)) = saved st @ ws"
      "\<forall>(p, r, d) \<in> set ws. status d = str ''pending'' \<and> result d = []"
    by blast
  show ?case
    unfolding status_history_append [OF w(1)]
    by (rule history_ok_pendings [OF upload.IH]) (use w(2) in auto)
next
  case (regrade st pl listing clock request)
  from regrade_records_saved [of clock listing pl request st] obtain ws
    where w: "saved (snd (regrade_records clock listing pl request st)) = saved st @ ws"
      "\<forall>(p, r, d) \<in> set ws. status d = str ''pending'' \<and> result d = []"
    by blast
  show ?case
    unfolding status_history_append [OF w(1)]
    by (rule history_ok_pendings [OF regrade.IH]) (use w(2) in auto)
next
  case (process st pl r env)
  define st0 where "st0 = st\<lparr>tasks := remove1 (pl, r) (tasks st)\<rparr>"
  have h0: "status_history st0 plan rid = status_history st plan rid"
    by (simp add: status_history_def st0_def)
  from process_homework_saved [of env pl r st0]
  show ?case
  proof
    assume "saved (process_homework env pl r st0) = saved st0 \<and>
      (\<forall>p ra. load_record (process_homework env pl r st0) p ra = load_record st0 p ra)"
    then show ?thesis
      using process.IH h0 by (simp add: status_history_def st0_def)
  next
    assume "\<exists>r1 r2. saved (process_homework env pl r st0) = saved st0 @ [(pl, r, r1), (pl, r, r2)] \<and>
      status r1 = str ''processing'' \<and>
      (status r2 = str ''done'' \<or> status r2 = str ''failed'' \<and> error r2 \<noteq> None) \<and>
      (\<forall>p ra d. load_record (process_homework env pl r st0) p ra = Some d \<longrightarrow>
          load_record st0 p ra = Some d \<or> (p, ra, d) = (pl, r, r2))"
    then obtain r1 r2 where
      w: "saved (process_homework env pl r st0) = saved st0 @ [(pl, r, r1), (pl, r, r2)]"
      and s1: "status r1 = str ''processing''"
      and s2: "status r2 = str ''done'' \<or> status r2 = str ''failed''"
      by blast
    have "history_ok (status_history (process_homework env pl r st0) plan rid)"
    proof (cases "pl = plan \<and> r = rid")
      case True
      have "history_ok (status_history st plan rid @ [str ''processing'', status r2])"
        by (rule history_ok_run [OF process.IH s2])
      from True w have w': "saved (process_homework env plan rid st0) =
          saved st0 @ [(plan, rid, r1), (plan, rid, r2)]" by simp
      have "status_history (process_homework env plan rid st0) plan rid =
          status_history st plan rid @ [str ''processing'', status r2]"
        using s1 by (simp add: status_history_append [OF w'] h0)
      with \<open>history_ok (status_history st plan rid @ [str ''processing'', status r2])\<close> True
      show ?thesis by simp
    next
      case False
      then have "status_history (process_homework env pl r st0) plan rid =
          status_history st plan rid"
        by (auto simp: status_history_append [OF w] h0)
      with process.IH show ?thesis by simp
    qed
    then show ?thesis by (simp add: st0_def)
  qed
qed

text \<open>
  C1, amended. In every state reached by creating plans, uploads, regrades and queued
  invocations, each step in the status history of a record is one of the specification's
  transitions or one of pending to pending (regrade), done to processing, failed to
  processing (an invocation that was queued while another was still queued); processing
  to pending does not occur.
\<close>

theorem status_moves_along_code_transitions:
  assumes "reachable st"
  shows "set (transitions (status_history st plan rid)) \<subseteq> code_transitions \<and>
         (str ''processing'', str ''pending'') \<notin> set (transitions (status_history st plan rid))"
proof -
  from reachable_history_ok [OF assms, of plan rid]
  have s: "set (transitions (status_history st plan rid)) \<subseteq> code_transitions"
    by (simp add: history_ok_def)
  have "(str ''processing'', str ''pending'') \<notin> code_transitions"
    by (simp add: code_transitions_def spec_transitions_def statuses_distinct)
  with s show ?thesis by blast
qed

lemma reachable_saved_invariant:
  "reachable st \<Longrightarrow>
   (\<forall>(p, r, d) \<in> set (saved st). code_invariant d) \<and>
   (\<forall>p r d. load_record st p r = Some d \<longrightarrow> (p, r, d) \<in> set (saved st))"
proof (induction rule: reachable.induct)
  case start
  show ?case by (simp add: empty_state_def load_record_def)
next
  case (plan st now pc)
  then show ?case by (simp add: create_plan_frame)
next
  case (upload st ms now1 now2 pl student0 files)
  from upload_saved [of ms now1 now2 pl student0 files st] obtain ws
    where w: "saved (snd (upload_homework ms now1 now2 pl student0 files st)) = saved st @ ws"
      "\<forall>(p, r, d) \<in> set ws. status d = str ''pending'' \<and> result d = []"
      "\<forall>p r d. load_record (snd (upload_homework ms now1 now2 pl student0 files st)) p r = Some d \<longrightarrow>
            load_record st p r = Some d \<or> (p, r, d) \<in> set ws"
    by blast
  have "\<forall>(p, r, d) \<in> set ws. code_invariant d"
    using w(2) by (auto simp: code_invariant_def statuses_distinct)
  with upload.IH w(1,3) show ?case by (simp add: ball_Un) blast
next
  case (regrade st pl listing clock request)
  from regrade_records_saved [of clock listing pl request st] obtain ws
    where w: "saved (snd (regrade_records clock listing pl request st)) = saved st @ ws"
      "\<forall>(p, r, d) \<in> set ws. status d = str ''pending'' \<and> result d = []"
      "\<forall>p r d. load_record (snd (regrade_records clock listing pl request st)) p r = Some d \<longrightarrow>
            load_record st p r = Some d \<or> (p, r, d) \<in> set ws"
    by blast
  have "\<forall>(p, r, d) \<in> set ws. code_invariant d"
    using w(2) by (auto simp: code_invariant_def statuses_distinct)
  with regrade.IH w(1,3) show ?case by (simp add: ball_Un) blast
next
  case (process st pl r env)
  define st0 where "st0 = st\<lparr>tasks := remove1 (pl, r) (tasks st)\<rparr>"
  have h0: "saved st0 = saved st" "\<And>p ra. load_record st0 p ra = load_record st p ra"
    by (simp_all add: st0_def load_record_def)
  from process_homework_saved [of env pl r st0]
  show ?case
  proof
    assume "saved (process_homework env pl r st0) = saved st0 \<and>
      (\<forall>p ra. load_record (process_homework env pl r st0) p ra = load_record st0 p ra)"
    then show ?thesis
      using process.IH h0 by (simp add: st0_def [symmetric])
  next
    assume "\<exists>r1 r2. saved (process_homework env pl r st0) = saved st0 @ [(pl, r, r1), (pl, r, r2)] \<and>
      status r1 = str ''processing'' \<and>
      (status r2 = str ''done'' \<or> status r2 = str ''failed'' \<and> error r2 \<noteq> None) \<and>
      (\<forall>p ra d. load_record (process_homework env pl r st0) p ra = Some d \<longrightarrow>
          load_record st0 p ra = Some d \<or> (p, ra, d) = (pl, r, r2))"
    then obtain r1 r2 where
      w: "saved (process_homework env pl r st0) = saved st0 @ [(pl, r, r1), (pl, r, r2)]"
      and s1: "status r1 = str ''processing''"
      and s2: "status r2 = str ''done'' \<or> status r2 = str ''failed'' \<and> error r2 \<noteq> None"
      and l: "\<forall>p ra d. load_record (process_homework env pl r st0) p ra = Some d \<longrightarrow>
          load_record st0 p ra = Some d \<or> (p, ra, d) = (pl, r, r2)"
      by blast
    have c1: "code_invariant r1" using s1 by (simp add: code_invariant_def statuses_distinct)
    have c2: "code_invariant r2" using s2 by (auto simp: code_invariant_def statuses_distinct)
    show ?thesis
      unfolding st0_def [symmetric] w
      using process.IH h0 c1 c2 l by (simp add: ball_Un) blast
  qed
qed

lemma grade_success_completion:
  "grade env plan r st = (Inr (t, c), st') \<Longrightarrow>
   \<exists>content response. deepseek_post env content = Inr response \<and> status_code response = 200 \<and>
      completion response = Inr c"
  by (auto simp: grade_def Let_def split: option.splits sum.splits if_splits)

lemma process_done_completion:
  assumes l: "load_record st plan rid = Some r0"
    and l': "load_record (process_homework env plan rid st) plan rid = Some r"
    and dn: "status r = str ''done''"
  shows "\<exists>content response. deepseek_post env content = Inr response \<and>
           status_code response = 200 \<and> completion response = Inr (result r)"
proof -
  define r1 where "r1 = r0\<lparr>status := str ''processing'', updated_at := time_start env\<rparr>"
  from load_record_dir [OF l] obtain d where d: "records_dirs st plan = Some d" by blast
  obtain x st2 where g: "grade env plan r1 (write_record plan rid r1 d st) = (x, st2)"
    by (cases "grade env plan r1 (write_record plan rid r1 d st)")
  note ph = process_homework_loaded [OF l d r1_def g]
  show ?thesis
  proof (cases x)
    case (Inl e)
    with l' dn show ?thesis
      unfolding ph by (auto simp: load_write_record statuses_distinct)
  next
    case (Inr tc)
    obtain t c where tc: "tc = (t, c)" by (cases tc)
    from l' have "result r = c"
      unfolding ph Inr tc by (auto simp: load_write_record)
    with grade_success_completion [OF g [unfolded Inr tc]] show ?thesis by simp
  qed
qed

text \<open>
  C6, amended. Every document saved on the way to a reachable state, and every record stored
  in it, has one of the four statuses, has an empty result when pending and has its error set
  when failed; and a record an invocation leaves done holds as result the completion the
  grading model returned with status 200.
\<close>

theorem reachable_records_keep_code_invariant:
  assumes "reachable st"
  shows "(\<forall>(p, r, d) \<in> set (saved st). code_invariant d) \<and>
         (\<forall>p r d. load_record st p r = Some d \<longrightarrow> code_invariant d) \<and>
         (\<forall>env p r d0 d. load_record st p r = Some d0 \<longrightarrow>
            load_record (process_homework env p r (st\<lparr>tasks := remove1 (p, r) (tasks st)\<rparr>)) p r =
              Some d \<longrightarrow>
            status d = str ''done'' \<longrightarrow>
            (\<exists>content response. deepseek_post env content = Inr response \<and>
               status_code response = 200 \<and> completion response = Inr (result d)))"
proof -
  note inv = reachable_saved_invariant [OF assms]
  have a: "\<forall>(p, r, d) \<in> set (saved st). code_invariant d" using inv by blast
  have b: "\<forall>p r d. load_record st p r = Some d \<longrightarrow> code_invariant d" using inv by blast
  have c: "\<exists>content response. deepseek_post env content = Inr response \<and>
               status_code response = 200 \<and> completion response = Inr (result d)"
    if "load_record st p r = Some d0"
      and "load_record (process_homework env p r (st\<lparr>tasks := remove1 (p, r) (tasks st)\<rparr>)) p r =
              Some d"
      and "status d = str ''done''" for env p r d0 d
  proof -
    have "load_record (st\<lparr>tasks := remove1 (p, r) (tasks st)\<rparr>) p r = Some d0"
      using that(1) by (simp add: load_record_def)
    from process_done_completion [OF this that(2,3)] show ?thesis .
  qed
  from a b c show ?thesis by blast
qed


section \<open>The theorems at the scenarios\<close>

lemma load_st_graded:
  "load_record st_graded (str ''math'') (str ''1700'') = Some rec_graded"
  by (simp add: st_graded_eq load_record_def)

lemma load_st_failed:
  "load_record st_failed (str ''math'') (str ''1700'') = Some rec_failed"
  by (simp add: st_failed_eq load_record_def)

lemma load_st_again:
  "load_record st_again (str ''math'') (str ''1700'') = Some (reset_for_regrade (str ''t8'') rec_failed)"
  by (simp add: st_again_eq load_record_def)

lemma history_st_failed:
  "status_history st_failed (str ''math'') (str ''1700'') =
     [str ''pending'', str ''pending'', str ''processing'', str ''done'', str ''processing'',
      str ''failed'']"
  by (simp add: status_history_def st_failed_eq saved_failed_def rec_one_def rec_graded_def
      rec_failed_def reset_for_regrade_def)

text \<open>
  C1, as stated, fails. A regrade request that names a graded record twice resets it twice,
  so the record goes from pending to pending, and queues two invocations, the second of which
  will start on a done or failed record. The same happens when a record is regraded before
  its queued invocation has run: the second invocation then starts on a done record.
\<close>

theorem regrade_leaves_spec_transitions:
  "reachable st_twice \<and>
   status_history st_twice (str ''math'') (str ''1700'') =
     [str ''pending'', str ''processing'', str ''done'', str ''pending'', str ''pending''] \<and>
   tasks st_twice = [(str ''math'', str ''1700''), (str ''math'', str ''1700'')] \<and>
   \<not> set (transitions (status_history st_twice (str ''math'') (str ''1700''))) \<subseteq>
       spec_transitions \<and>
   reachable st_failed \<and>
   status_history st_failed (str ''math'') (str ''1700'') =
     [str ''pending'', str ''pending'', str ''processing'', str ''done'', str ''processing'',
      str ''failed''] \<and>
   (str ''done'', str ''processing'') \<notin> spec_transitions \<and>
   \<not> set (transitions (status_history st_failed (str ''math'') (str ''1700''))) \<subseteq>
       spec_transitions"
proof -
  have n: "(str ''pending'', str ''pending'') \<notin> spec_transitions"
    by (simp add: spec_transitions_def statuses_distinct)
  have n2: "(str ''done'', str ''processing'') \<notin> spec_transitions"
    by (simp add: spec_transitions_def statuses_distinct)
  have "(str ''pending'', str ''pending'') \<in>
      set (transitions (status_history st_twice (str ''math'') (str ''1700'')))"
    by (simp add: history_st_twice)
  with n have a: "\<not> set (transitions (status_history st_twice (str ''math'') (str ''1700''))) \<subseteq>
       spec_transitions" by blast
  have "(str ''done'', str ''processing'') \<in>
      set (transitions (status_history st_failed (str ''math'') (str ''1700'')))"
    by (simp add: history_st_failed)
  with n2 have b: "\<not> set (transitions (status_history st_failed (str ''math'') (str ''1700''))) \<subseteq>
       spec_transitions" by blast
  from reachable_st_twice history_st_twice tasks_st_twice a reachable_st_failed
    history_st_failed n2 b
  show ?thesis by blast
qed

text \<open>C1, amended, at the scenario.\<close>

theorem status_moves_along_code_transitions_witness:
  "reachable st_failed \<and>
   set (transitions (status_history st_failed (str ''math'') (str ''1700''))) \<subseteq> code_transitions \<and>
   (str ''processing'', str ''pending'') \<notin>
     set (transitions (status_history st_failed (str ''math'') (str ''1700''))) \<and>
   (str ''done'', str ''processing'') \<in>
     set (transitions (status_history st_failed (str ''math'') (str ''1700'')))"
proof -
  have "(str ''done'', str ''processing'') \<in>
     set (transitions (status_history st_failed (str ''math'') (str ''1700'')))"
    by (simp add: history_st_failed)
  with status_moves_along_code_transitions [OF reachable_st_failed, of "str ''math''" "str ''1700''"]
    reachable_st_failed
  show ?thesis by blast
qed

text \<open>
  C6, as stated, fails. A record that failed at the grading model and is then regraded is
  pending with its error still set: regrade never clears the error. And the invocation that
  starts on a done record and fails leaves a failed record with a non-empty result.
\<close>

theorem regrade_keeps_stale_error:
  "reachable st_busy_regraded \<and>
   map_option status (load_record st_busy_regraded (str ''math'') (str ''1700'')) =
     Some (str ''pending'') \<and>
   map_option error (load_record st_busy_regraded (str ''math'') (str ''1700'')) =
     Some (Some (deepseek_call_failed 500 (str ''busy''))) \<and>
   map_option spec_invariant (load_record st_busy_regraded (str ''math'') (str ''1700'')) =
     Some False \<and>
   reachable st_failed \<and>
   map_option status (load_record st_failed (str ''math'') (str ''1700'')) = Some (str ''failed'') \<and>
   map_option result (load_record st_failed (str ''math'') (str ''1700'')) =
     Some (page1_prompt @ str ''Grade: A'') \<and>
   map_option spec_invariant (load_record st_failed (str ''math'') (str ''1700'')) = Some False"
  unfolding load_st_failed load_st_busy_regraded
  using reachable_st_failed reachable_st_busy_regraded
  by (simp add: rec_failed_def rec_graded_def reset_for_regrade_def rec_one_def rec_busy_def
      spec_invariant_def str_simps)

text \<open>C6, amended, at the scenario.\<close>

theorem reachable_records_keep_code_invariant_witness:
  "reachable st_again \<and>
   load_record st_again (str ''math'') (str ''1700'') = Some (reset_for_regrade (str ''t8'') rec_failed) \<and>
   code_invariant (reset_for_regrade (str ''t8'') rec_failed) \<and>
   (str ''math'', str ''1700'', rec_failed) \<in> set (saved st_again) \<and>
   code_invariant rec_failed \<and>
   reachable st_regraded \<and>
   load_record st_graded (str ''math'') (str ''1700'') = Some rec_graded \<and>
   status rec_graded = str ''done'' \<and>
   (\<exists>content response. deepseek_post env_ok content = Inr response \<and>
      status_code response = 200 \<and> completion response = Inr (result rec_graded))"
proof -
  note a = reachable_records_keep_code_invariant [OF reachable_st_again]
  note g = reachable_records_keep_code_invariant [OF reachable_st_regraded]
  have m: "(str ''math'', str ''1700'', rec_failed) \<in> set (saved st_again)"
    by (simp add: st_again_eq saved_failed_def)
  from a load_st_again have c1: "code_invariant (reset_for_regrade (str ''t8'') rec_failed)"
    by blast
  from a m have c2: "code_invariant rec_failed" by blast
  have l0: "load_record st_regraded (str ''math'') (str ''1700'') =
      Some (reset_for_regrade (str ''t4'') rec_one)"
    by (simp add: st_regraded_eq load_record_def)
  have dn: "status rec_graded = str ''done''" by (simp add: rec_graded_def)
  have l1: "load_record (process_homework env_ok (str ''math'') (str ''1700'')
      (st_regraded\<lparr>tasks := remove1 (str ''math'', str ''1700'') (tasks st_regraded)\<rparr>))
      (str ''math'') (str ''1700'') = Some rec_graded"
    using load_st_graded by (simp add: st_graded_def)
  from g l0 l1 dn have c3: "\<exists>content response. deepseek_post env_ok content = Inr response \<and>
      status_code response = 200 \<and> completion response = Inr (result rec_graded)"
    by blast
  from reachable_st_again load_st_again c1 m c2 reachable_st_regraded load_st_graded dn c3
  show ?thesis by blast
qed

lemma env_fields_busy:
  "app env_busy = tencent_app" "unicode_lower env_busy = (\<lambda>s. s)"
  "time_start env_busy = str ''t2''" "time_end env_busy = str ''t3''"
  "net_ocr env_busy = ocr_pages" "deepseek_post env_busy = busy_grader"
  by (simp_all add: env_busy_def)


lemma env_fields_blank:
  "app env_blank = tencent_app" "unicode_lower env_blank = (\<lambda>s. s)"
  "time_start env_blank = str ''t2''" "time_end env_blank = str ''t3''"
  "net_ocr env_blank = (\<lambda>a b. Inr (str ''  ''))" "deepseek_post env_blank = echo_grader"
  by (simp_all add: env_blank_def)

lemma env_fields_ali:
  "app env_ali = ali_app" "unicode_lower env_ali = (\<lambda>s. s)"
  "time_start env_ali = str ''t2''" "time_end env_ali = str ''t3''"
  "net_ocr env_ali = ocr_pages" "deepseek_post env_ali = echo_grader"
  by (simp_all add: env_ali_def)

lemma configs_st_one: "configs st_one (str ''math'') = Some math_config"
  by (simp add: st_one_eq)



lemma ocr_st_one:
  "ocr_images ocr_pages (Tencent t) (\<lambda>rel. image_files st_one (str ''math'', rel)) 1
     (images rec_one) [] = [page1_text]"
  by (simp add: st_one_eq rec_one_def page1_text_def ocr_pages_def)
    (simp add: str_def strip_def isspace_def)


lemma ocr_st_one_ali:
  "ocr_images ocr_pages (Ali t) (\<lambda>rel. image_files st_one (str ''math'', rel)) 1
     (images rec_one) [] = [ali_text]"
  by (simp add: st_one_eq rec_one_def ali_text_def)

lemma posted_busy:
  "posted (process_homework env_busy (str ''math'') (str ''1700'') st_one) = [page1_prompt]"
  unfolding st_one_eq
  by (simp add: process_homework_def load_record_def save_json_record_def write_record_def
      grade_def env_fields_busy adapter_tencent key_tencent Let_def mark_failed_def
      TencentOCRAdapter_def rec_one_def math_config_def busy_grader_def busy_response_def
      page1_prompt_def page1_text_def ocr_pages_def)
    (simp add: str_def strip_def isspace_def)


lemma posted_st_one: "posted st_one = []"
  by (simp add: st_one_eq)

lemma load_one: "load_record st_one (str ''math'') (str ''1700'') = Some rec_one"
  by (simp add: load_st_one)

text \<open>C3 at the scenario: the grading model answers 500 to the one-page record.\<close>

theorem grading_non_success_marks_failed_witness:
  "load_record st_one (str ''math'') (str ''1700'') = Some rec_one \<and>
   posted (process_homework env_busy (str ''math'') (str ''1700'') st_one) =
     posted st_one @ [page1_prompt] \<and>
   deepseek_post env_busy page1_prompt = Inr busy_response \<and>
   status_code busy_response \<noteq> 200 \<and>
   (\<exists>d. load_record (process_homework env_busy (str ''math'') (str ''1700'') st_one)
           (str ''math'') (str ''1700'') = Some d \<and>
        status d = str ''failed'' \<and>
        error d = Some (deepseek_call_failed 500 (str ''busy'')) \<and>
        result d = [] \<and> ocr_text d = None)"
proof -
  have h2: "posted (process_homework env_busy (str ''math'') (str ''1700'') st_one) =
     posted st_one @ [page1_prompt]"
    by (simp add: posted_busy posted_st_one)
  have h3: "deepseek_post env_busy page1_prompt = Inr busy_response"
    by (simp add: env_fields_busy busy_grader_def)
  have h4: "status_code busy_response \<noteq> 200"
    by (simp add: busy_response_def)
  from grading_non_success_marks_failed [OF load_one h2 h3 h4]
  obtain d where
    "load_record (process_homework env_busy (str ''math'') (str ''1700'') st_one)
       (str ''math'') (str ''1700'') = Some d"
    "status d = str ''failed''"
    "error d = Some (deepseek_call_failed (status_code busy_response) (response_text busy_response))"
    "result d = result rec_one" "ocr_text d = ocr_text rec_one"
    by blast
  then have "\<exists>d. load_record (process_homework env_busy (str ''math'') (str ''1700'') st_one)
           (str ''math'') (str ''1700'') = Some d \<and>
        status d = str ''failed'' \<and>
        error d = Some (deepseek_call_failed 500 (str ''busy'')) \<and>
        result d = [] \<and> ocr_text d = None"
    by (simp add: busy_response_def rec_one_def)
  with load_one h2 h3 h4 show ?thesis by blast
qed


lemma image_st_one:
  "image_files st_one (str ''math'', str ''images/1700_1.png'') = Some (str ''cDE='')"
  by (simp add: st_one_eq)

text \<open>
  C10 at the scenario: the page OCRs to two blanks, a second listed file is missing, and the
  Ali adapter raises.
\<close>

theorem silent_images_omitted_witness:
  "load_record st_one (str ''math'') (str ''1700'') = Some rec_one \<and>
   configs st_one (str ''math'') = Some math_config \<and>
   get_ocr_adapter (unicode_lower env_blank) (app env_blank) = Inr (Tencent tencent_t) \<and>
   images rec_one = [str ''images/1700_1.png''] \<and>
   image_files st_one (str ''math'', str ''images/1700_1.png'') = Some (str ''cDE='') \<and>
   recognize (net_ocr env_blank) (Tencent tencent_t) (str ''cDE='') = Inr (str ''  '') \<and>
   strip (str ''  '') = [] \<and>
   ocr_images (net_ocr env_blank) (Tencent tencent_t)
     (\<lambda>rel. image_files st_one (str ''math'', rel)) 1 (images rec_one) [] = [] \<and>
   load_record (process_homework env_blank (str ''math'') (str ''1700'') st_one)
     (str ''math'') (str ''1700'') =
     Some (rec_one\<lparr>status := str ''failed'', error := Some no_text_recognized,
             updated_at := str ''t3''\<rparr>) \<and>
   posted (process_homework env_blank (str ''math'') (str ''1700'') st_one) = [] \<and>
   ocr_images (net_ocr env_blank) (Tencent tencent_t)
     (\<lambda>rel. image_files st_one (str ''math'', rel)) 1
     [str ''images/1700_1.png'', str ''images/lost.png''] [] =
   ocr_images (net_ocr env_blank) (Tencent tencent_t)
     (\<lambda>rel. image_files st_one (str ''math'', rel)) (Suc 1) [str ''images/lost.png''] [] \<and>
   recognize ocr_pages (Ali ali_t) (str ''cDE='') = Inl (NotImplementedError ali_not_implemented) \<and>
   ocr_images ocr_pages (Ali ali_t) (\<lambda>rel. image_files st_one (str ''math'', rel)) 1
     [str ''images/1700_1.png''] [] =
   ocr_images ocr_pages (Ali ali_t) (\<lambda>rel. image_files st_one (str ''math'', rel)) (Suc 1) []
     ([] @ [image_label 1 @ recognition_failed (NotImplementedError ali_not_implemented)])"
proof -
  let ?files = "\<lambda>rel. image_files st_one (str ''math'', rel)"
  let ?img = "str ''images/1700_1.png''"
  have ad: "get_ocr_adapter (unicode_lower env_blank) (app env_blank) = Inr (Tencent tencent_t)"
    by (simp add: env_fields_blank adapter_tencent tencent_t_def)
  have im: "images rec_one = [?img]" by (simp add: rec_one_def)
  have rc: "recognize (net_ocr env_blank) (Tencent tencent_t) (str ''cDE='') = Inr (str ''  '')"
    by (simp add: env_fields_blank)
  have sp: "strip (str ''  '') = []" by simp
  have ra: "recognize ocr_pages (Ali ali_t) (str ''cDE='') = Inl (NotImplementedError ali_not_implemented)"
    by simp
  have te: "time_end env_blank = str ''t3''" by (simp add: env_fields_blank)
  note blank = silent_images_omitted [of ?files ?img "net_ocr env_blank" "Tencent tencent_t" 1
      "[str ''images/lost.png'']" "[]" st_one "str ''math''" "str ''1700''" rec_one math_config
      env_blank]
  note ali = silent_images_omitted [of ?files ?img ocr_pages "Ali ali_t" 1 "[]" "[]"]
  have quiet: "?files ?img = None \<or>
      (\<exists>b t. ?files ?img = Some b \<and> recognize (net_ocr env_blank) (Tencent tencent_t) b = Inr t \<and>
         strip t = [])"
    using image_st_one rc sp by blast
  have all_quiet: "\<forall>q \<in> set (images rec_one).
       image_files st_one (str ''math'', q) = None \<or>
       (\<exists>b t. image_files st_one (str ''math'', q) = Some b \<and>
              recognize (net_ocr env_blank) (Tencent tencent_t) b = Inr t \<and> strip t = [])"
    unfolding im using quiet by simp
  from blank have "?files ?img = None \<or>
      (\<exists>b t. ?files ?img = Some b \<and> recognize (net_ocr env_blank) (Tencent tencent_t) b = Inr t \<and>
         strip t = []) \<longrightarrow>
      ocr_images (net_ocr env_blank) (Tencent tencent_t) ?files 1
        [?img, str ''images/lost.png''] [] =
      ocr_images (net_ocr env_blank) (Tencent tencent_t) ?files (Suc 1) [str ''images/lost.png''] []"
    by (rule conjunct1)
  with quiet have s1: "ocr_images (net_ocr env_blank) (Tencent tencent_t) ?files 1
     [?img, str ''images/lost.png''] [] =
   ocr_images (net_ocr env_blank) (Tencent tencent_t) ?files (Suc 1) [str ''images/lost.png''] []"
    by (rule rev_mp)
  from blank load_one configs_st_one ad all_quiet
  have s3: "ocr_images (net_ocr env_blank) (Tencent tencent_t) ?files 1 (images rec_one) [] = [] \<and>
      load_record (process_homework env_blank (str ''math'') (str ''1700'') st_one)
        (str ''math'') (str ''1700'') =
        Some (rec_one\<lparr>status := str ''failed'', error := Some no_text_recognized,
                 updated_at := time_end env_blank\<rparr>) \<and>
      posted (process_homework env_blank (str ''math'') (str ''1700'') st_one) = posted st_one"
    by blast
  from ali have "\<forall>b e. ?files ?img = Some b \<and> recognize ocr_pages (Ali ali_t) b = Inl e \<longrightarrow>
      ocr_images ocr_pages (Ali ali_t) ?files 1 [?img] [] =
      ocr_images ocr_pages (Ali ali_t) ?files (Suc 1) [] ([] @ [image_label 1 @ recognition_failed e])"
    by blast
  with image_st_one ra have s2: "ocr_images ocr_pages (Ali ali_t) ?files 1 [?img] [] =
      ocr_images ocr_pages (Ali ali_t) ?files (Suc 1) []
        ([] @ [image_label 1 @ recognition_failed (NotImplementedError ali_not_implemented)])"
    by blast
  from load_one configs_st_one ad im image_st_one rc sp s3 [unfolded te posted_st_one] s1 ra s2
  show ?thesis by blast
qed





text \<open>
  C2 against the code: with the Ali adapter the OCR call raises for the record's only image.
  The handler appends the failure placeholder to \<open>recognized_texts\<close>, so the list is not
  empty, the no-recognized-text error is not raised, the placeholder is sent to the grading
  model, and the record is saved as done.
\<close>

theorem failed_ocr_is_graded:
  "get_ocr_adapter (unicode_lower env_ali) (app env_ali) = Inr (Ali ali_t) \<and>
   images rec_one = [str ''images/1700_1.png''] \<and>
   image_files st_one (str ''math'', str ''images/1700_1.png'') = Some (str ''cDE='') \<and>
   recognize (net_ocr env_ali) (Ali ali_t) (str ''cDE='') =
     Inl (NotImplementedError ali_not_implemented) \<and>
   load_record st_one (str ''math'') (str ''1700'') = Some rec_one \<and>
   load_record (process_homework env_ali (str ''math'') (str ''1700'') st_one)
     (str ''math'') (str ''1700'') =
     Some (rec_one\<lparr>status := str ''done'', updated_at := str ''t3'', ocr_text := Some ali_text,
             result := str ''Grade this'' @ homework_header @ ali_text @ [10] @ str ''Grade: A''\<rparr>) \<and>
   ali_text = image_label 1 @ recognition_failed (NotImplementedError ali_not_implemented)"
proof -
  have ad: "get_ocr_adapter (unicode_lower env_ali) (app env_ali) = Inr (Ali ali_t)"
    by (simp add: env_fields_ali adapter_ali ali_t_def)
  have im: "images rec_one = [str ''images/1700_1.png'']" by (simp add: rec_one_def)
  have ra: "recognize (net_ocr env_ali) (Ali ali_t) (str ''cDE='') =
     Inl (NotImplementedError ali_not_implemented)" by simp
  obtain d where d: "records_dirs st_one (str ''math'') = Some d"
    using load_record_dir [OF load_one] by blast
  define r1 where "r1 = rec_one\<lparr>status := str ''processing'', updated_at := time_start env_ali\<rparr>"
  define st1 where "st1 = write_record (str ''math'') (str ''1700'') r1 d st_one"
  define full where "full = str ''Grade this'' @ homework_header @ ali_text @ [10]"
  have tx: "ocr_images (net_ocr env_ali) (Ali ali_t) (\<lambda>rel. image_files st1 (str ''math'', rel))
      (Suc 0) (images r1) [] = [ali_text]"
    using ocr_st_one_ali [of ali_t] by (simp add: env_fields_ali st1_def r1_def)
  have c1: "configs st1 (str ''math'') = Some math_config"
    by (simp add: st1_def configs_st_one)
  have key: "DEEPSEEK_API_KEY (app env_ali) \<noteq> []"
    by (simp add: env_fields_ali key_ali str_simps)
  have post: "deepseek_post env_ali full =
      Inr \<lparr>status_code = 200, response_text = [], completion = Inr (full @ str ''Grade: A'')\<rparr>"
    by (simp add: env_fields_ali echo_grader_def)
  have pr: "prompt math_config @ homework_header @ ali_text @ [10] = full"
    by (simp add: full_def math_config_def)
  have g: "grade env_ali (str ''math'') r1 st1 =
      (Inr (ali_text, full @ str ''Grade: A''), st1\<lparr>posted := posted st1 @ [full]\<rparr>)"
    by (simp add: grade_def Let_def c1 ad tx key pr post)
  note ph = process_homework_loaded [OF load_one d r1_def g [unfolded st1_def]]
  have "load_record (process_homework env_ali (str ''math'') (str ''1700'') st_one)
     (str ''math'') (str ''1700'') =
     Some (rec_one\<lparr>status := str ''done'', updated_at := str ''t3'', ocr_text := Some ali_text,
             result := full @ str ''Grade: A''\<rparr>)"
    unfolding ph by (simp add: load_write_record r1_def env_fields_ali)
  with ad im image_st_one ra load_one show ?thesis
    by (simp add: full_def ali_text_def)
qed

end
